theory Spec2Isabelle
  imports Complex_Main "HOL-Library.Word" "HOL-Library.Multiset"
begin

section \<open>The VK2 engine: data model\<close>

text \<open>
  The engine of \<^verbatim>\<open>VK2/Core/Engine.cpp\<close> talks to three outside parties: the
  window system (SDL), the GPU driver (Vulkan, reached partly through VkBootstrap) and
  the shader compiler with the file system. Every call the engine makes to them is
  written to a trace of events, and every answer they give is read from an environment
  record. The engine's own fields are the record \<open>Engine\<close>.
\<close>

type_synonym handle = nat
type_synonym byte = "8 word"
type_synonym path = string

text \<open>The result codes of the driver the engine can meet; only \<open>VK_SUCCESS\<close> is zero.\<close>

datatype vk_result =
    VK_SUCCESS | VK_NOT_READY | VK_TIMEOUT | VK_SUBOPTIMAL_KHR
  | VK_ERROR_OUT_OF_DATE_KHR | VK_ERROR_DEVICE_LOST | VK_ERROR_OTHER

text \<open>
  What ends a function early. \<open>RuntimeError\<close> is a thrown \<^verbatim>\<open>std::runtime_error\<close>
  with its message, \<open>FilesystemError\<close> the \<^verbatim>\<open>std::filesystem::filesystem_error\<close>
  that \<^verbatim>\<open>last_write_time\<close> throws for a path that does not exist. The other two are
  not exceptions: reading a local variable that was never written, and indexing a
  \<^verbatim>\<open>std::vector\<close> with \<^verbatim>\<open>operator[]\<close> beyond its size, have no defined behaviour.
\<close>

datatype error =
    RuntimeError string
  | FilesystemError path
  | UninitializedRead
  | OutOfBounds

fun is_exception :: "error \<Rightarrow> bool" where
  "is_exception (RuntimeError m) = True"
| "is_exception (FilesystemError p) = True"
| "is_exception UninitializedRead = False"
| "is_exception OutOfBounds = False"

datatype kind =
    WindowK | InstanceK | DebugMessengerK | SurfaceK | DeviceK | SwapchainK | ImageViewK
  | CommandPoolK | CommandBufferK | RenderPassK | FramebufferK | FenceK | SemaphoreK
  | ShaderModuleK

datatype sdl_event = SDL_QUIT | SDL_OTHER nat

text \<open>
  Single-precision values are kept as the expressions the source computes them by: a
  \<^verbatim>\<open>float\<close> literal, the conversion of a \<^verbatim>\<open>uint64_t\<close>, a division, \<^verbatim>\<open>sin\<close> and
  \<^verbatim>\<open>abs\<close>. What number an expression rounds to is the business of the platform's
  arithmetic and of its math library, and is not fixed here.
\<close>

datatype float_expr =
    FLit int
  | FOfU64 "64 word"
  | FDiv float_expr float_expr
  | FSin float_expr
  | FAbs float_expr

type_synonym clear_color = "float_expr \<times> float_expr \<times> float_expr \<times> float_expr"

datatype event =
    SdlInit
  | Create kind handle
  | Destroy kind handle
  | Polled sdl_event
  | WaitForFences handle nat
  | ResetFences handle
  | AcquireNextImage handle nat handle
  | ResetCommandBuffer handle
  | BeginCommandBuffer handle
  | CmdBeginRenderPass handle handle handle clear_color
  | CmdEndRenderPass handle
  | EndCommandBuffer handle
  | QueueSubmit handle handle handle handle handle
  | QueuePresent handle handle handle "32 word"
  | CompileShader path "byte list"
  | WriteFile path "byte list"
  | CreateShaderModule "byte list"
  | DebugOutput string
  | PrintWhat error

record Engine =
  Window :: handle
  WindowExtents :: "32 word \<times> 32 word"
  IsInitialized :: bool
  AppName :: string
  FrameNumber :: "64 word"
  Instance :: handle
  DebugMessenger :: handle
  ChosenGPU :: handle
  Device :: handle
  Surface :: handle
  Swapchain :: handle
  SwapchainFormat :: nat
  SwapchainImages :: "handle list"
  SwapchainImageViews :: "handle list"
  GraphicsQueue :: handle
  GraphicsQueueFamily :: "32 word"
  CommandPool :: handle
  MainCommandBuffer :: handle
  RenderPass :: handle
  Framebuffers :: "handle list"
  PresentSemaphore :: handle
  RenderSemaphore :: handle
  RenderFence :: handle

text \<open>
  The constructor. The members without an initialiser are indeterminate in C++ until
  initialisation writes them; no path reads one before, and they are 0 here.
\<close>

definition new_Engine :: "string \<Rightarrow> Engine" where
  "new_Engine appName =
     \<lparr> Window = 0, WindowExtents = (1280, 700), IsInitialized = False, AppName = appName,
       FrameNumber = 0, Instance = 0, DebugMessenger = 0, ChosenGPU = 0, Device = 0,
       Surface = 0, Swapchain = 0, SwapchainFormat = 0, SwapchainImages = [],
       SwapchainImageViews = [], GraphicsQueue = 0, GraphicsQueueFamily = 0,
       CommandPool = 0, MainCommandBuffer = 0, RenderPass = 0, Framebuffers = [],
       PresentSemaphore = 0, RenderSemaphore = 0, RenderFence = 0 \<rparr>"

subsection \<open>Steps: trace, new state, and how the step ended\<close>

text \<open>
  A member function is a step on a state: it returns the events it caused, the state it
  left behind (an exception does not undo the writes before it) and \<open>None\<close> for a normal
  return or \<open>Some\<close> of what ended it.
\<close>

type_synonym 's step = "'s \<Rightarrow> event list \<times> 's \<times> error option"

definition seq :: "'s step \<Rightarrow> 's step \<Rightarrow> 's step" where
  "seq f g s =
     (case f s of
        (ev, s', Some err) \<Rightarrow> (ev, s', Some err)
      | (ev, s', None) \<Rightarrow> (case g s' of (ev', s'', r) \<Rightarrow> (ev @ ev', s'', r)))"

definition trace :: "event list \<times> 's \<times> error option \<Rightarrow> event list" where
  "trace r = fst r"

definition state_of :: "event list \<times> 's \<times> error option \<Rightarrow> 's" where
  "state_of r = fst (snd r)"

definition ended :: "event list \<times> 's \<times> error option \<Rightarrow> error option" where
  "ended r = snd (snd r)"

section \<open>The shader cache\<close>

text \<open>
  A file has a modification time, its bytes, and whether opening it for reading
  succeeds. The file system maps paths to files.
\<close>

record disk_file =
  mtime :: nat
  content :: "byte list"
  readable :: bool

type_synonym files = "path \<rightharpoonup> disk_file"

text \<open>
  What \<^verbatim>\<open>shaderc::Compiler::CompileGlslToSpv\<close> hands back: the number of errors, the
  error text, and the words between \<^verbatim>\<open>cbegin()\<close> and \<^verbatim>\<open>cend()\<close>.
\<close>

record compile_result =
  num_errors :: nat
  error_message :: string
  spirv :: "32 word list"

text \<open>
  The environment of the shader functions: the compiler (its result is a function of
  the source text and the file name given to it), whether a path can be opened for
  writing, the time stamp a written file gets, and the driver's answer to
  \<^verbatim>\<open>vkCreateShaderModule\<close> for the bytes read from a path.
\<close>

record shader_env =
  compiler :: "byte list \<Rightarrow> path \<Rightarrow> compile_result"
  open_for_write :: "path \<Rightarrow> bool"
  write_time :: nat
  create_shader_module :: "path \<Rightarrow> vk_result \<times> handle"

text \<open>The bytes of a 32-bit word in memory (the target of the source is little-endian).\<close>

definition word_bytes :: "32 word \<Rightarrow> byte list" where
  "word_bytes w = [ucast w, ucast (drop_bit 8 w), ucast (drop_bit 16 w), ucast (drop_bit 24 w)]"

definition spirv_bytes :: "32 word list \<Rightarrow> byte list" where
  "spirv_bytes ws = concat (map word_bytes ws)"

text \<open>The compiler is given \<^verbatim>\<open>buffer.data()\<close> as a C string: the bytes up to the first 0.\<close>

definition c_str :: "byte list \<Rightarrow> byte list" where
  "c_str buffer = takeWhile (\<lambda>b. b \<noteq> 0) buffer"

definition write_file :: "nat \<Rightarrow> path \<Rightarrow> byte list \<Rightarrow> files \<Rightarrow> files" where
  "write_file t p bs fs =
     fs(p \<mapsto> (case fs p of
                 None \<Rightarrow> \<lparr> mtime = t, content = bs, readable = True \<rparr>
               | Some f \<Rightarrow> f\<lparr> mtime := t, content := bs \<rparr>))"

text \<open>
  \<^verbatim>\<open>bool Engine::CompileGlslToSpv(glslPath, inOutSpvPath)\<close>: the trace, the files
  afterwards, and the returned flag.
\<close>

definition CompileGlslToSpv ::
  "shader_env \<Rightarrow> path \<Rightarrow> path option \<Rightarrow> files \<Rightarrow> event list \<times> files \<times> bool" where
  "CompileGlslToSpv env glslPath inOutSpvPath fs =
     (let spvPath = (case inOutSpvPath of None \<Rightarrow> glslPath @ ''.spv'' | Some p \<Rightarrow> p) in
      case fs glslPath of
        None \<Rightarrow> ([], fs, False)
      | Some src \<Rightarrow>
          if \<not> readable src then ([], fs, False)
          else
            let buffer = content src @ [0];
                source_text = c_str buffer;
                result = compiler env source_text glslPath
            in if num_errors result > 0
               then ([CompileShader glslPath source_text, DebugOutput (error_message result),
                      DebugOutput [CHR 0x0A]], fs, False)
               else if \<not> open_for_write env spvPath
               then ([CompileShader glslPath source_text], fs, False)
               else ([CompileShader glslPath source_text, WriteFile spvPath (spirv_bytes (spirv result))],
                     write_file (write_time env) spvPath (spirv_bytes (spirv result)) fs, True))"

text \<open>
  \<^verbatim>\<open>void Engine::LoadShaderModule(glslPath, outShaderModule)\<close>. The state is the
  file system; the module handle written to the out parameter is returned beside it
  (0 when the function threw before writing it).
\<close>

definition needs_compile :: "files \<Rightarrow> path \<Rightarrow> path \<Rightarrow> error + bool" where
  "needs_compile fs glslPath spvPath =
     (case fs spvPath of
        None \<Rightarrow> Inr True
      | Some spv \<Rightarrow>
          (case fs glslPath of
             None \<Rightarrow> Inl (FilesystemError glslPath)
           | Some src \<Rightarrow> Inr (mtime src > mtime spv)))"

definition read_and_create ::
  "shader_env \<Rightarrow> path \<Rightarrow> files \<Rightarrow> event list \<times> (files \<times> handle) \<times> error option" where
  "read_and_create env spvPath fs =
     (case fs spvPath of
        None \<Rightarrow> ([], (fs, 0), Some (RuntimeError ''Failed to open shader file!''))
      | Some spv \<Rightarrow>
          if \<not> readable spv
          then ([], (fs, 0), Some (RuntimeError ''Failed to open shader file!''))
          else
            let buffer = content spv in
            (case create_shader_module env spvPath of
               (r, shaderModule) \<Rightarrow>
                 if r \<noteq> VK_SUCCESS
                 then ([CreateShaderModule buffer], (fs, 0),
                       Some (RuntimeError (''Failed to create shader module from '' @ spvPath)))
                 else ([CreateShaderModule buffer, Create ShaderModuleK shaderModule],
                       (fs, shaderModule), None)))"

definition LoadShaderModule ::
  "shader_env \<Rightarrow> path \<Rightarrow> files \<Rightarrow> event list \<times> (files \<times> handle) \<times> error option" where
  "LoadShaderModule env glslPath fs =
     (let spvPath = glslPath @ ''.spv'' in
      case needs_compile fs glslPath spvPath of
        Inl err \<Rightarrow> ([], (fs, 0), Some err)
      | Inr False \<Rightarrow> read_and_create env spvPath fs
      | Inr True \<Rightarrow>
          (case CompileGlslToSpv env glslPath (Some spvPath) fs of
             (ev, fs', ok) \<Rightarrow>
               if \<not> ok
               then (ev, (fs', 0),
                     Some (RuntimeError (''Failed to compile '' @ glslPath @ '' to spv'')))
               else (case read_and_create env spvPath fs' of
                       (ev', out, r) \<Rightarrow> (ev @ ev', out, r))))"

text \<open>The compiler invocations in a trace.\<close>

fun is_compile :: "event \<Rightarrow> bool" where
  "is_compile (CompileShader p t) = True"
| "is_compile _ = False"

definition compiler_invocations :: "event list \<Rightarrow> nat" where
  "compiler_invocations evs = length (filter is_compile evs)"


section \<open>Initialisation\<close>

text \<open>
  The answers of SDL, VkBootstrap and the driver during \<^verbatim>\<open>Engine::Initialize\<close>. A
  \<^verbatim>\<open>vkCreate...\<close> call answers with its result code and the handle it wrote. The
  VkBootstrap builders are used through \<^verbatim>\<open>.value()\<close>, for which the source has no
  failure branch: the environment holds the built values. \<open>create_framebuffer i\<close> is the
  answer to the call for image \<open>i\<close>.
\<close>

record init_env =
  sdl_init :: int
  sdl_create_window :: handle
  vkb_instance :: "handle \<times> handle"
  sdl_create_surface :: "bool \<times> handle"
  vkb_physical_device :: handle
  vkb_device :: handle
  vkb_queue :: handle
  vkb_queue_index :: "32 word"
  vkb_swapchain :: handle
  vkb_images :: "handle list"
  vkb_image_views :: "handle list"
  vkb_image_format :: nat
  create_command_pool :: "vk_result \<times> handle"
  allocate_command_buffers :: "vk_result \<times> handle"
  create_render_pass :: "vk_result \<times> handle"
  create_framebuffer :: "nat \<Rightarrow> vk_result \<times> handle"
  create_fence :: "vk_result \<times> handle"
  create_present_semaphore :: "vk_result \<times> handle"
  create_render_semaphore :: "vk_result \<times> handle"
  shaders :: shader_env

text \<open>The first two statements of \<^verbatim>\<open>Engine::Initialize\<close>: SDL and the window.\<close>

definition Initialize_sdl :: "init_env \<Rightarrow> Engine step" where
  "Initialize_sdl env e =
     (if sdl_init env \<noteq> 0 then ([SdlInit], e, Some (RuntimeError ''Could not initialize SDL.''))
      else ([SdlInit], e, None))"

definition Initialize_window :: "init_env \<Rightarrow> Engine step" where
  "Initialize_window env e =
     (let e' = e\<lparr> Window := sdl_create_window env \<rparr> in
      if Window e' = 0 then ([], e', Some (RuntimeError ''Failed to create SDL Window''))
      else ([Create WindowK (Window e')], e', None))"

text \<open>
  \<^verbatim>\<open>Engine::InitVulkan\<close>. The result of \<^verbatim>\<open>SDL_Vulkan_CreateSurface\<close> is not
  looked at; the surface is written only when the call succeeded.
\<close>

definition InitVulkan :: "init_env \<Rightarrow> Engine step" where
  "InitVulkan env e =
     (let e1 = e\<lparr> Instance := fst (vkb_instance env), DebugMessenger := snd (vkb_instance env) \<rparr>;
          ev1 = [Create InstanceK (Instance e1), Create DebugMessengerK (DebugMessenger e1)];
          e2 = (if fst (sdl_create_surface env) then e1\<lparr> Surface := snd (sdl_create_surface env) \<rparr>
                else e1);
          ev2 = (if fst (sdl_create_surface env) then [Create SurfaceK (Surface e2)] else []);
          e3 = e2\<lparr> ChosenGPU := vkb_physical_device env \<rparr>;
          e4 = e3\<lparr> Device := vkb_device env \<rparr>;
          e5 = e4\<lparr> GraphicsQueue := vkb_queue env, GraphicsQueueFamily := vkb_queue_index env \<rparr>
      in (ev1 @ ev2 @ [Create DeviceK (Device e5)], e5, None))"

definition InitSwapchain :: "init_env \<Rightarrow> Engine step" where
  "InitSwapchain env e =
     (let e' = e\<lparr> Swapchain := vkb_swapchain env,
                  SwapchainImages := vkb_images env,
                  SwapchainImageViews := vkb_image_views env,
                  SwapchainFormat := vkb_image_format env \<rparr>
      in (Create SwapchainK (Swapchain e') # map (Create ImageViewK) (SwapchainImageViews e'),
          e', None))"

definition InitCommands :: "init_env \<Rightarrow> Engine step" where
  "InitCommands env e =
     (case create_command_pool env of
        (r, pool) \<Rightarrow>
          if r \<noteq> VK_SUCCESS
          then ([], e, Some (RuntimeError ''Failed to create command pool.''))
          else
            let e1 = e\<lparr> CommandPool := pool \<rparr> in
            (case allocate_command_buffers env of
               (r', cmd) \<Rightarrow>
                 if r' \<noteq> VK_SUCCESS
                 then ([Create CommandPoolK pool], e1,
                       Some (RuntimeError ''Failed to allocate a command buffer.''))
                 else ([Create CommandPoolK pool, Create CommandBufferK cmd],
                       e1\<lparr> MainCommandBuffer := cmd \<rparr>, None)))"

definition InitDefaultRenderpass :: "init_env \<Rightarrow> Engine step" where
  "InitDefaultRenderpass env e =
     (case create_render_pass env of
        (r, rp) \<Rightarrow>
          if r \<noteq> VK_SUCCESS then ([], e, Some (RuntimeError ''Failed to create render pass''))
          else ([Create RenderPassK rp], e\<lparr> RenderPass := rp \<rparr>, None))"

text \<open>\<^verbatim>\<open>std::vector::resize\<close>: keeps a prefix, fills with null handles.\<close>

definition resize :: "nat \<Rightarrow> handle list \<Rightarrow> handle list" where
  "resize n xs = take n xs @ replicate (n - length xs) 0"

text \<open>
  The loop of \<^verbatim>\<open>Engine::InitFramebuffers\<close> from index \<open>i\<close>. It takes the address of
  \<^verbatim>\<open>SwapchainImageViews[i]\<close> and writes \<^verbatim>\<open>Framebuffers[i]\<close>; the first failing creation
  throws, and nothing created before is touched.
\<close>

function InitFramebuffers_loop :: "init_env \<Rightarrow> nat \<Rightarrow> nat \<Rightarrow> Engine step" where
  "InitFramebuffers_loop env swapchainSize i e =
     (if i < swapchainSize then
        (if length (SwapchainImageViews e) \<le> i \<or> length (Framebuffers e) \<le> i
         then ([], e, Some OutOfBounds)
         else (case create_framebuffer env i of
                 (r, fb) \<Rightarrow>
                   if r \<noteq> VK_SUCCESS
                   then ([], e, Some (RuntimeError ''Failed to create a framebuffer''))
                   else (case InitFramebuffers_loop env swapchainSize (Suc i)
                                 (e\<lparr> Framebuffers := (Framebuffers e)[i := fb] \<rparr>) of
                           (ev, e', res) \<Rightarrow> (Create FramebufferK fb # ev, e', res))))
      else ([], e, None))"
  by pat_completeness auto
termination
  by (relation "measure (\<lambda>(env, swapchainSize, i, e). swapchainSize - i)") auto

declare InitFramebuffers_loop.simps [simp del]

definition InitFramebuffers :: "init_env \<Rightarrow> Engine step" where
  "InitFramebuffers env e =
     (let swapchainSize = length (SwapchainImages e);
          e' = e\<lparr> Framebuffers := resize swapchainSize (Framebuffers e) \<rparr>
      in InitFramebuffers_loop env swapchainSize 0 e')"

definition InitSyncStructures :: "init_env \<Rightarrow> Engine step" where
  "InitSyncStructures env e =
     (case create_fence env of
        (r, fence) \<Rightarrow>
          if r \<noteq> VK_SUCCESS then ([], e, Some (RuntimeError ''Failed to create fence''))
          else
            let e1 = e\<lparr> RenderFence := fence \<rparr> in
            (case create_present_semaphore env of
               (r', ps) \<Rightarrow>
                 if r' \<noteq> VK_SUCCESS
                 then ([Create FenceK fence], e1,
                       Some (RuntimeError ''Failed to create present semaphore''))
                 else
                   let e2 = e1\<lparr> PresentSemaphore := ps \<rparr> in
                   (case create_render_semaphore env of
                      (r'', rs) \<Rightarrow>
                        if r'' \<noteq> VK_SUCCESS
                        then ([Create FenceK fence, Create SemaphoreK ps], e2,
                              Some (RuntimeError ''Failed to create render semaphore''))
                        else ([Create FenceK fence, Create SemaphoreK ps, Create SemaphoreK rs],
                              e2\<lparr> RenderSemaphore := rs \<rparr>, None))))"

text \<open>
  \<^verbatim>\<open>Engine::InitPipelines\<close> loads the two shader modules into locals and drops them.
  It is the only step that touches the file system.
\<close>

definition InitPipelines :: "shader_env \<Rightarrow> (Engine \<times> files) step" where
  "InitPipelines env s =
     (case s of (e, fs) \<Rightarrow>
        (case LoadShaderModule env ''./Shaders/triangle.vert'' fs of
           (ev, (fs', triangleVertShader), Some err) \<Rightarrow> (ev, (e, fs'), Some err)
         | (ev, (fs', triangleVertShader), None) \<Rightarrow>
             (case LoadShaderModule env ''./Shaders/triangle.frag'' fs' of
                (ev', (fs'', triangleFragShader), r) \<Rightarrow> (ev @ ev', (e, fs''), r))))"

definition on_engine :: "Engine step \<Rightarrow> (Engine \<times> files) step" where
  "on_engine f s = (case s of (e, fs) \<Rightarrow> (case f e of (ev, e', r) \<Rightarrow> (ev, (e', fs), r)))"

definition set_initialized :: "Engine step" where
  "set_initialized e = ([], e\<lparr> IsInitialized := True \<rparr>, None)"

definition Initialize :: "init_env \<Rightarrow> (Engine \<times> files) step" where
  "Initialize env =
     seq (on_engine (Initialize_sdl env))
    (seq (on_engine (Initialize_window env))
    (seq (on_engine (InitVulkan env))
    (seq (on_engine (InitSwapchain env))
    (seq (on_engine (InitCommands env))
    (seq (on_engine (InitDefaultRenderpass env))
    (seq (on_engine (InitFramebuffers env))
    (seq (on_engine (InitSyncStructures env))
    (seq (InitPipelines (shaders env))
         (on_engine set_initialized)))))))))"

section \<open>Teardown\<close>

text \<open>
  The loop of \<^verbatim>\<open>Engine::Cleanup\<close> runs over the image views and reads
  \<^verbatim>\<open>Framebuffers[i]\<close> beside each.
\<close>

function Cleanup_loop :: "nat \<Rightarrow> Engine step" where
  "Cleanup_loop i e =
     (if i < length (SwapchainImageViews e) then
        (if length (Framebuffers e) \<le> i then ([], e, Some OutOfBounds)
         else (case Cleanup_loop (Suc i) e of
                 (ev, e', res) \<Rightarrow>
                   (Destroy FramebufferK (Framebuffers e ! i)
                      # Destroy ImageViewK (SwapchainImageViews e ! i) # ev, e', res)))
      else ([], e, None))"
  by pat_completeness auto
termination
  by (relation "measure (\<lambda>(i, e). length (SwapchainImageViews e) - i)") auto

declare Cleanup_loop.simps [simp del]

definition Cleanup :: "Engine step" where
  "Cleanup e =
     (if \<not> IsInitialized e then ([], e, None)
      else
        seq (\<lambda>e. ([Destroy CommandPoolK (CommandPool e), Destroy SwapchainK (Swapchain e),
                   Destroy RenderPassK (RenderPass e)], e, None))
       (seq (Cleanup_loop 0)
            (\<lambda>e. ([Destroy DeviceK (Device e), Destroy SurfaceK (Surface e),
                    Destroy DebugMessengerK (DebugMessenger e), Destroy InstanceK (Instance e),
                    Destroy WindowK (Window e)], e, None))) e)"

section \<open>The draw cycle\<close>

text \<open>
  The driver's answers during one \<^verbatim>\<open>Engine::Draw\<close>. \<open>acquire_index\<close> is the index the
  driver writes to \<^verbatim>\<open>swapchainImageIdx\<close>; it writes one only when the acquisition
  returns \<open>VK_SUCCESS\<close> or \<open>VK_SUBOPTIMAL_KHR\<close>, and the local has no initialiser.
\<close>

record draw_env =
  wait_result :: vk_result
  acquire_result :: vk_result
  acquire_index :: "32 word"
  submit_result :: vk_result
  present_result :: vk_result

definition index_written :: "vk_result \<Rightarrow> bool" where
  "index_written r = (r = VK_SUCCESS \<or> r = VK_SUBOPTIMAL_KHR)"

text \<open>
  \<^verbatim>\<open>float flash = abs(sin(FrameNumber / 120.0f))\<close>: the frame number is converted to
  \<^verbatim>\<open>float\<close> for the division by the literal. The colour is
  \<^verbatim>\<open>{ 0.f, 0.f, flash, 1.f }\<close>.
\<close>

definition flash :: "64 word \<Rightarrow> float_expr" where
  "flash frameNumber = FAbs (FSin (FDiv (FOfU64 frameNumber) (FLit 120)))"

definition clearValue :: "64 word \<Rightarrow> clear_color" where
  "clearValue frameNumber = (FLit 0, FLit 0, flash frameNumber, FLit 1)"

definition Draw :: "draw_env \<Rightarrow> Engine step" where
  "Draw env e =
     (let ev = [WaitForFences (RenderFence e) 1000000000,
                ResetFences (RenderFence e),
                AcquireNextImage (Swapchain e) 1000000000 (PresentSemaphore e),
                ResetCommandBuffer (MainCommandBuffer e),
                BeginCommandBuffer (MainCommandBuffer e)]
      in if \<not> index_written (acquire_result env) then (ev, e, Some UninitializedRead)
         else
           let swapchainImageIdx = acquire_index env in
           if length (Framebuffers e) \<le> unat swapchainImageIdx then (ev, e, Some OutOfBounds)
           else (ev @ [CmdBeginRenderPass (MainCommandBuffer e) (RenderPass e)
                         (Framebuffers e ! unat swapchainImageIdx) (clearValue (FrameNumber e)),
                       CmdEndRenderPass (MainCommandBuffer e),
                       EndCommandBuffer (MainCommandBuffer e),
                       QueueSubmit (GraphicsQueue e) (MainCommandBuffer e) (PresentSemaphore e)
                         (RenderSemaphore e) (RenderFence e),
                       QueuePresent (GraphicsQueue e) (Swapchain e) (RenderSemaphore e)
                         swapchainImageIdx],
                 e\<lparr> FrameNumber := FrameNumber e + 1 \<rparr>, None))"

section \<open>The event loop and the program\<close>

text \<open>The inner loop of \<^verbatim>\<open>Engine::Run\<close>: drain the pending events, clear the flag on quit.\<close>

fun poll_events :: "sdl_event list \<Rightarrow> bool \<Rightarrow> bool" where
  "poll_events [] stillRunning = stillRunning"
| "poll_events (SDL_QUIT # es) stillRunning = poll_events es False"
| "poll_events (SDL_OTHER n # es) stillRunning = poll_events es stillRunning"

text \<open>
  One entry per iteration of the outer loop: the events pending when it polls, and the
  driver's answers to its Draw.
\<close>

record frame_env =
  pending :: "sdl_event list"
  draw :: draw_env

text \<open>
  The outer loop. The environment is a finite script of iterations; \<open>None\<close> says the
  script ran out with the flag still set, that is, the loop had not ended yet.
\<close>

fun Run_loop ::
  "frame_env list \<Rightarrow> bool \<Rightarrow> Engine \<Rightarrow> (event list \<times> Engine \<times> error option) option" where
  "Run_loop [] stillRunning e = (if stillRunning then None else Some ([], e, None))"
| "Run_loop (f # fs) stillRunning e =
     (if \<not> stillRunning then Some ([], e, None)
      else
        let stillRunning' = poll_events (pending f) stillRunning;
            polled = map Polled (pending f)
        in (case Draw (draw f) e of
              (ev, e', Some err) \<Rightarrow> Some (polled @ ev, e', Some err)
            | (ev, e', None) \<Rightarrow>
                (case Run_loop fs stillRunning' e' of
                   None \<Rightarrow> None
                 | Some (ev', e'', r) \<Rightarrow> Some (polled @ ev @ ev', e'', r))))"

definition Run :: "frame_env list \<Rightarrow> Engine \<Rightarrow> (event list \<times> Engine \<times> error option) option" where
  "Run envs e = Run_loop envs True e"

text \<open>
  \<^verbatim>\<open>int Engine::Exec()\<close> on an engine just constructed. The result is the trace with
  the exit code returned, or with what left the function without being caught: the two
  handlers catch \<^verbatim>\<open>std::exception\<close>, and \<^verbatim>\<open>Run\<close> is outside both.
\<close>

datatype exit = ExitCode int | Abnormal error

record exec_env =
  init :: init_env
  disk :: files
  frames :: "frame_env list"

definition Exec :: "exec_env \<Rightarrow> string \<Rightarrow> (event list \<times> exit) option" where
  "Exec env appName =
     (case Initialize (init env) (new_Engine appName, disk env) of
        (ev, s, Some err) \<Rightarrow>
          Some (if is_exception err then (ev @ [PrintWhat err], ExitCode 1)
                else (ev, Abnormal err))
      | (ev, (e, fs), None) \<Rightarrow>
          (case Run (frames env) e of
             None \<Rightarrow> None
           | Some (ev', e', Some err) \<Rightarrow> Some (ev @ ev', Abnormal err)
           | Some (ev', e', None) \<Rightarrow>
               (case Cleanup e' of
                  (ev'', e'', Some err) \<Rightarrow>
                    Some (if is_exception err then (ev @ ev' @ ev'' @ [PrintWhat err], ExitCode 1)
                          else (ev @ ev' @ ev'', Abnormal err))
                | (ev'', e'', None) \<Rightarrow> Some (ev @ ev' @ ev'', ExitCode 0))))"

section \<open>Reading traces\<close>

fun created :: "event list \<Rightarrow> (kind \<times> handle) list" where
  "created [] = []"
| "created (Create k h # evs) = (k, h) # created evs"
| "created (e # evs) = created evs"

fun destroyed :: "event list \<Rightarrow> (kind \<times> handle) list" where
  "destroyed [] = []"
| "destroyed (Destroy k h # evs) = (k, h) # destroyed evs"
| "destroyed (e # evs) = destroyed evs"


text \<open>
  The value of a float expression under given operations on a type \<open>'f\<close> of values. The
  platform's single-precision operations are one such choice; no property of them is
  assumed beyond their being functions.
\<close>

record 'f float_ops =
  lit :: "int \<Rightarrow> 'f"
  of_u64 :: "64 word \<Rightarrow> 'f"
  fdiv :: "'f \<Rightarrow> 'f \<Rightarrow> 'f"
  fsin :: "'f \<Rightarrow> 'f"
  fabs :: "'f \<Rightarrow> 'f"

fun float_value :: "'f float_ops \<Rightarrow> float_expr \<Rightarrow> 'f" where
  "float_value ops (FLit k) = lit ops k"
| "float_value ops (FOfU64 n) = of_u64 ops n"
| "float_value ops (FDiv a b) = fdiv ops (float_value ops a) (float_value ops b)"
| "float_value ops (FSin a) = fsin ops (float_value ops a)"
| "float_value ops (FAbs a) = fabs ops (float_value ops a)"


text \<open>
  Exact arithmetic on the real numbers. It is not the arithmetic of the program, which
  rounds; it is the reading under which a float expression is a formula of analysis.
\<close>

definition exact_ops :: "real float_ops" where
  "exact_ops =
     \<lparr> lit = real_of_int, of_u64 = (\<lambda>n. real (unat n)), fdiv = (/), fsin = sin, fabs = abs \<rparr>"

text \<open>
  The kinds of resource \<^verbatim>\<open>Engine::Cleanup\<close> has a destroy call for, and among them
  those of the context (device, surface, debug messenger, instance, window).
\<close>

fun managed :: "kind \<times> handle \<Rightarrow> bool" where
  "managed (k, h) =
     (k = WindowK \<or> k = InstanceK \<or> k = DebugMessengerK \<or> k = SurfaceK \<or> k = DeviceK
      \<or> k = SwapchainK \<or> k = ImageViewK \<or> k = CommandPoolK \<or> k = RenderPassK
      \<or> k = FramebufferK)"

fun of_context :: "kind \<times> handle \<Rightarrow> bool" where
  "of_context (k, h) =
     (k = WindowK \<or> k = InstanceK \<or> k = DebugMessengerK \<or> k = SurfaceK \<or> k = DeviceK)"

section \<open>Several cycles in a row\<close>

text \<open>Draw cycles one after the other, as long as each returns.\<close>

fun Draw_cycles :: "draw_env list \<Rightarrow> Engine step" where
  "Draw_cycles [] e = ([], e, None)"
| "Draw_cycles (d # ds) e = seq (Draw d) (Draw_cycles ds) e"

text \<open>One iteration of the event loop, flag apart: drain the events, then draw.\<close>

definition iteration :: "frame_env \<Rightarrow> Engine step" where
  "iteration f e = (case Draw (draw f) e of (ev, e', r) \<Rightarrow> (map Polled (pending f) @ ev, e', r))"

fun iterations :: "frame_env list \<Rightarrow> Engine step" where
  "iterations [] e = ([], e, None)"
| "iterations (f # fs) e = seq (iteration f) (iterations fs) e"

section \<open>A concrete run\<close>

text \<open>
  A driver with two swapchain images where every call succeeds, a compiled vertex
  shader that is newer than its source, and a fragment shader never compiled before.
\<close>

definition example_shader_env :: shader_env where
  "example_shader_env =
     \<lparr> compiler = (\<lambda>src name. \<lparr> num_errors = 0, error_message = [], spirv = [0x07230203] \<rparr>),
       open_for_write = (\<lambda>p. True),
       write_time = 9,
       create_shader_module =
         (\<lambda>p. (VK_SUCCESS, if p = ''./Shaders/triangle.vert.spv'' then 40 else 41)) \<rparr>"

definition example_disk :: files where
  "example_disk =
     [''./Shaders/triangle.vert'' \<mapsto> \<lparr> mtime = 1, content = [0x76], readable = True \<rparr>,
      ''./Shaders/triangle.vert.spv'' \<mapsto> \<lparr> mtime = 2, content = [3, 2, 35, 7], readable = True \<rparr>,
      ''./Shaders/triangle.frag'' \<mapsto> \<lparr> mtime = 3, content = [0x66], readable = True \<rparr>]"

definition example_init_env :: init_env where
  "example_init_env =
     \<lparr> sdl_init = 0, sdl_create_window = 1, vkb_instance = (2, 3),
       sdl_create_surface = (True, 4), vkb_physical_device = 5, vkb_device = 6,
       vkb_queue = 7, vkb_queue_index = 0, vkb_swapchain = 8,
       vkb_images = [10, 11], vkb_image_views = [12, 13], vkb_image_format = 44,
       create_command_pool = (VK_SUCCESS, 14), allocate_command_buffers = (VK_SUCCESS, 15),
       create_render_pass = (VK_SUCCESS, 16),
       create_framebuffer = (\<lambda>i. (VK_SUCCESS, 20 + i)),
       create_fence = (VK_SUCCESS, 30), create_present_semaphore = (VK_SUCCESS, 31),
       create_render_semaphore = (VK_SUCCESS, 32), shaders = example_shader_env \<rparr>"

text \<open>The engine this initialisation leaves behind.\<close>

definition example_engine :: Engine where
  "example_engine =
     \<lparr> Window = 1, WindowExtents = (1280, 700), IsInitialized = True, AppName = ''VK2'',
       FrameNumber = 0, Instance = 2, DebugMessenger = 3, ChosenGPU = 5, Device = 6,
       Surface = 4, Swapchain = 8, SwapchainFormat = 44, SwapchainImages = [10, 11],
       SwapchainImageViews = [12, 13], GraphicsQueue = 7, GraphicsQueueFamily = 0,
       CommandPool = 14, MainCommandBuffer = 15, RenderPass = 16, Framebuffers = [20, 21],
       PresentSemaphore = 31, RenderSemaphore = 32, RenderFence = 30 \<rparr>"

definition example_draw_env :: draw_env where
  "example_draw_env =
     \<lparr> wait_result = VK_SUCCESS, acquire_result = VK_SUCCESS, acquire_index = 1,
       submit_result = VK_SUCCESS, present_result = VK_SUCCESS \<rparr>"

text \<open>The same cycle with the fence wait timing out, and with the present failing.\<close>

definition timeout_draw_env :: draw_env where
  "timeout_draw_env = example_draw_env\<lparr> wait_result := VK_TIMEOUT \<rparr>"

definition failed_present_draw_env :: draw_env where
  "failed_present_draw_env = example_draw_env\<lparr> present_result := VK_ERROR_OUT_OF_DATE_KHR \<rparr>"

text \<open>The same initialisation with the second framebuffer creation failing.\<close>

definition failed_framebuffer_init_env :: init_env where
  "failed_framebuffer_init_env =
     example_init_env\<lparr> create_framebuffer :=
       (\<lambda>i. if i = 1 then (VK_ERROR_OTHER, 0) else (VK_SUCCESS, 20 + i)) \<rparr>"

section \<open>Auxiliary notions for the statements\<close>

text \<open>
  The framebuffer handles the loop of \<^verbatim>\<open>InitFramebuffers\<close> has stored when it ran from
  index \<open>i\<close> up to \<open>n\<close>.
\<close>

definition stored :: "init_env \<Rightarrow> nat \<Rightarrow> nat \<Rightarrow> handle list \<Rightarrow> handle list" where
  "stored env i n fbs = fold (\<lambda>j xs. xs[j := snd (create_framebuffer env j)]) [i..<n] fbs"

text \<open>The surface after \<^verbatim>\<open>SDL_Vulkan_CreateSurface\<close>, and the event of its creation.\<close>

definition surface_after :: "init_env \<Rightarrow> handle \<Rightarrow> handle" where
  "surface_after env old =
     (if fst (sdl_create_surface env) then snd (sdl_create_surface env) else old)"

definition surface_created :: "init_env \<Rightarrow> event list" where
  "surface_created env =
     (if fst (sdl_create_surface env) then [Create SurfaceK (snd (sdl_create_surface env))]
      else [])"

text \<open>
  What a complete initialisation does before it loads the shaders: the trace, and the
  engine it builds.
\<close>

definition init_prefix :: "init_env \<Rightarrow> event list" where
  "init_prefix env =
     [SdlInit, Create WindowK (sdl_create_window env),
      Create InstanceK (fst (vkb_instance env)), Create DebugMessengerK (snd (vkb_instance env))]
     @ surface_created env
     @ [Create DeviceK (vkb_device env), Create SwapchainK (vkb_swapchain env)]
     @ map (Create ImageViewK) (vkb_image_views env)
     @ [Create CommandPoolK (snd (create_command_pool env)),
        Create CommandBufferK (snd (allocate_command_buffers env)),
        Create RenderPassK (snd (create_render_pass env))]
     @ map (\<lambda>j. Create FramebufferK (snd (create_framebuffer env j)))
         [0..<length (vkb_images env)]
     @ [Create FenceK (snd (create_fence env)),
        Create SemaphoreK (snd (create_present_semaphore env)),
        Create SemaphoreK (snd (create_render_semaphore env))]"

definition init_engine :: "init_env \<Rightarrow> Engine \<Rightarrow> Engine" where
  "init_engine env e0 =
     e0\<lparr> Window := sdl_create_window env,
         Instance := fst (vkb_instance env), DebugMessenger := snd (vkb_instance env),
         Surface := surface_after env (Surface e0),
         ChosenGPU := vkb_physical_device env,
         Device := vkb_device env, GraphicsQueue := vkb_queue env,
         GraphicsQueueFamily := vkb_queue_index env,
         Swapchain := vkb_swapchain env, SwapchainImages := vkb_images env,
         SwapchainImageViews := vkb_image_views env, SwapchainFormat := vkb_image_format env,
         CommandPool := snd (create_command_pool env),
         MainCommandBuffer := snd (allocate_command_buffers env),
         RenderPass := snd (create_render_pass env),
         Framebuffers := stored env 0 (length (vkb_images env))
                           (resize (length (vkb_images env)) (Framebuffers e0)),
         RenderFence := snd (create_fence env),
         PresentSemaphore := snd (create_present_semaphore env),
         RenderSemaphore := snd (create_render_semaphore env),
         IsInitialized := True \<rparr>"

text \<open>The exceptions whose message was written to \<^verbatim>\<open>std::cout\<close>.\<close>

fun printed :: "event list \<Rightarrow> error list" where
  "printed [] = []"
| "printed (PrintWhat err # evs) = err # printed evs"
| "printed (e # evs) = printed evs"

text \<open>
  Three runs of the program: one where the second framebuffer cannot be created, one
  where the fence wait of the only draw cycle times out, and one that draws twice and is
  quit during the second iteration.
\<close>

definition failed_framebuffer_exec_env :: exec_env where
  "failed_framebuffer_exec_env =
     \<lparr> init = failed_framebuffer_init_env, disk = example_disk, frames = [] \<rparr>"

definition timeout_exec_env :: exec_env where
  "timeout_exec_env =
     \<lparr> init = example_init_env, disk = example_disk,
       frames = [\<lparr> pending = [SDL_QUIT], draw = timeout_draw_env \<rparr>] \<rparr>"

definition example_exec_env :: exec_env where
  "example_exec_env =
     \<lparr> init = example_init_env, disk = example_disk,
       frames = [\<lparr> pending = [SDL_OTHER 2], draw = failed_present_draw_env \<rparr>,
                 \<lparr> pending = [SDL_OTHER 3, SDL_QUIT], draw = example_draw_env \<rparr>,
                 \<lparr> pending = [], draw = example_draw_env \<rparr>] \<rparr>"

section \<open>Steps in sequence\<close>

lemma step_parts:
  "ended (ev, s, r) = r" "trace (ev, s, r) = ev" "state_of (ev, s, r) = s"
  by (simp_all add: ended_def trace_def state_of_def)

lemma triple_parts: "r = (trace r, state_of r, ended r)"
  by (cases r) (auto simp: trace_def state_of_def ended_def)

lemma seq_ended_None:
  "ended (seq f g s) = None \<longleftrightarrow> ended (f s) = None \<and> ended (g (state_of (f s))) = None"
  by (auto simp: seq_def ended_def state_of_def split: prod.splits option.splits)

lemma seq_state_of:
  "ended (f s) = None \<Longrightarrow> state_of (seq f g s) = state_of (g (state_of (f s)))"
  by (auto simp: seq_def ended_def state_of_def split: prod.splits option.splits)

lemma seq_trace:
  "ended (f s) = None \<Longrightarrow> trace (seq f g s) = trace (f s) @ trace (g (state_of (f s)))"
  by (auto simp: seq_def ended_def state_of_def trace_def split: prod.splits option.splits)

lemma seq_failed: "ended (f s) = Some err \<Longrightarrow> seq f g s = f s"
  by (auto simp: seq_def ended_def split: prod.splits option.splits)

lemma on_engine_fst:
  "ended (on_engine f s) = ended (f (fst s))"
  "trace (on_engine f s) = trace (f (fst s))"
  "state_of (on_engine f s) = (state_of (f (fst s)), snd s)"
  by (auto simp: on_engine_def ended_def trace_def state_of_def split: prod.splits)

lemma seq_on_engine_ok:
  assumes "ended (seq (on_engine f) g (e, fs)) = None"
    and "ended (f e) = None \<Longrightarrow> f e = (ev, e', None)"
  shows "ended (g (e', fs)) = None
       \<and> trace (seq (on_engine f) g (e, fs)) = ev @ trace (g (e', fs))
       \<and> state_of (seq (on_engine f) g (e, fs)) = state_of (g (e', fs))"
proof -
  from assms(1) have "ended (f e) = None"
    by (simp add: seq_ended_None on_engine_fst)
  then have f: "f e = (ev, e', None)" by (rule assms(2))
  then have o: "on_engine f (e, fs) = (ev, (e', fs), None)"
    by (simp add: on_engine_def)
  from assms(1) show ?thesis
    by (auto simp: seq_def o ended_def trace_def state_of_def split: prod.splits)
qed

lemma seq_flag:
  assumes "\<And>s. X (state_of (f s)) = X s"
    and "\<And>s. X (state_of (g s)) = (X s \<or> ended (g s) = None)"
  shows "X (state_of (seq f g s)) = (X s \<or> ended (seq f g s) = None)"
proof (cases "ended (f s)")
  case None
  then show ?thesis
    using assms(1) [of s] assms(2) [of "state_of (f s)"]
    by (simp add: seq_state_of seq_ended_None)
next
  case (Some err)
  then show ?thesis
    using assms(1) [of s] by (simp add: seq_failed)
qed

lemma created_append: "created (xs @ ys) = created xs @ created ys"
  by (induction xs rule: created.induct) auto

lemma destroyed_append: "destroyed (xs @ ys) = destroyed xs @ destroyed ys"
  by (induction xs rule: destroyed.induct) auto

lemma destroyed_map_Create: "destroyed (map (Create k) hs) = []"
  by (induction hs) auto

lemma destroyed_map_Create_fun: "destroyed (map (\<lambda>j. Create k (h j)) js) = []"
  by (induction js) auto

lemma created_map_Create_fun: "created (map (\<lambda>j. Create k (h j)) js) = map (\<lambda>j. (k, h j)) js"
  by (induction js) auto

lemma created_map_Create: "created (map (Create k) hs) = map (Pair k) hs"
  by (induction hs) auto

lemma destroyed_pairs:
  "destroyed (concat (map (\<lambda>j. [Destroy k1 (a j), Destroy k2 (b j)]) js))
     = concat (map (\<lambda>j. [(k1, a j), (k2, b j)]) js)"
  by (induction js) auto

lemma mset_pairs:
  "mset (concat (map (\<lambda>j. [a j, b j]) js)) = mset (map a js) + mset (map b js)"
  by (induction js) auto

lemma filter_of_context_managed:
  "filter managed xs = [] \<Longrightarrow> filter of_context xs = []"
  by (induction xs) (auto split: if_splits)

section \<open>The concrete run, evaluated\<close>

lemma example_disk_lookups:
  "example_disk ''./Shaders/triangle.vert''
     = Some \<lparr> mtime = 1, content = [0x76], readable = True \<rparr>"
  "example_disk ''./Shaders/triangle.vert.spv''
     = Some \<lparr> mtime = 2, content = [3, 2, 35, 7], readable = True \<rparr>"
  "example_disk ''./Shaders/triangle.frag''
     = Some \<lparr> mtime = 3, content = [0x66], readable = True \<rparr>"
  "example_disk ''./Shaders/triangle.frag.spv'' = None"
  "example_disk ''./Shaders/missing.vert'' = None"
  "example_disk ''./Shaders/missing.vert.spv'' = None"
  by (simp_all add: example_disk_def)

lemma spirv_bytes_magic: "spirv_bytes [0x07230203] = [3, 2, 35, 7]"
  by (simp add: spirv_bytes_def word_bytes_def)

lemma LoadShaderModule_example_vert:
  "LoadShaderModule example_shader_env ''./Shaders/triangle.vert'' example_disk
     = ([CreateShaderModule [3, 2, 35, 7], Create ShaderModuleK 40], (example_disk, 40), None)"
  by (simp add: LoadShaderModule_def needs_compile_def read_and_create_def example_disk_lookups
      example_shader_env_def)

lemma InitPipelines_example:
  "InitPipelines example_shader_env (e, example_disk)
     = ([CreateShaderModule [3, 2, 35, 7], Create ShaderModuleK 40,
         CompileShader ''./Shaders/triangle.frag'' [0x66],
         WriteFile ''./Shaders/triangle.frag.spv'' [3, 2, 35, 7],
         CreateShaderModule [3, 2, 35, 7], Create ShaderModuleK 41],
        (e, example_disk(''./Shaders/triangle.frag.spv''
              \<mapsto> \<lparr> mtime = 9, content = [3, 2, 35, 7], readable = True \<rparr>)), None)"
proof -
  have "LoadShaderModule example_shader_env ''./Shaders/triangle.frag'' example_disk
     = ([CompileShader ''./Shaders/triangle.frag'' [0x66],
         WriteFile ''./Shaders/triangle.frag.spv'' [3, 2, 35, 7],
         CreateShaderModule [3, 2, 35, 7], Create ShaderModuleK 41],
        (example_disk(''./Shaders/triangle.frag.spv''
           \<mapsto> \<lparr> mtime = 9, content = [3, 2, 35, 7], readable = True \<rparr>), 41), None)"
    by (simp add: LoadShaderModule_def needs_compile_def read_and_create_def
        example_disk_lookups example_shader_env_def CompileGlslToSpv_def c_str_def
        spirv_bytes_magic write_file_def Let_def)
  then show ?thesis
    by (simp add: InitPipelines_def LoadShaderModule_example_vert)
qed

lemma Initialize_example:
  "Initialize example_init_env (new_Engine ''VK2'', example_disk)
     = ([SdlInit, Create WindowK 1, Create InstanceK 2, Create DebugMessengerK 3,
         Create SurfaceK 4, Create DeviceK 6, Create SwapchainK 8,
         Create ImageViewK 12, Create ImageViewK 13, Create CommandPoolK 14,
         Create CommandBufferK 15, Create RenderPassK 16, Create FramebufferK 20,
         Create FramebufferK 21, Create FenceK 30, Create SemaphoreK 31,
         Create SemaphoreK 32, CreateShaderModule [3, 2, 35, 7],
         Create ShaderModuleK 40, CompileShader ''./Shaders/triangle.frag'' [0x66],
         WriteFile ''./Shaders/triangle.frag.spv'' [3, 2, 35, 7],
         CreateShaderModule [3, 2, 35, 7], Create ShaderModuleK 41],
        (example_engine,
         example_disk(''./Shaders/triangle.frag.spv''
           \<mapsto> \<lparr> mtime = 9, content = [3, 2, 35, 7], readable = True \<rparr>)),
        None)"
  by (simp add: Initialize_def seq_def on_engine_def Initialize_sdl_def Initialize_window_def
      InitVulkan_def InitSwapchain_def InitCommands_def InitDefaultRenderpass_def
      InitFramebuffers_def InitSyncStructures_def InitPipelines_example set_initialized_def
      resize_def new_Engine_def example_init_env_def example_engine_def
      InitFramebuffers_loop.simps)

lemma Cleanup_example:
  "Cleanup example_engine =
     ([Destroy CommandPoolK 14, Destroy SwapchainK 8, Destroy RenderPassK 16,
       Destroy FramebufferK 20, Destroy ImageViewK 12, Destroy FramebufferK 21,
       Destroy ImageViewK 13, Destroy DeviceK 6, Destroy SurfaceK 4,
       Destroy DebugMessengerK 3, Destroy InstanceK 2, Destroy WindowK 1], example_engine, None)"
  by (simp add: Cleanup_def seq_def example_engine_def Cleanup_loop.simps)

lemma Draw_example:
  "Draw example_draw_env example_engine =
     ([WaitForFences 30 1000000000, ResetFences 30, AcquireNextImage 8 1000000000 31,
       ResetCommandBuffer 15, BeginCommandBuffer 15,
       CmdBeginRenderPass 15 16 21
         (FLit 0, FLit 0, FAbs (FSin (FDiv (FOfU64 0) (FLit 120))), FLit 1),
       CmdEndRenderPass 15, EndCommandBuffer 15,
       QueueSubmit 7 15 31 32 30, QueuePresent 7 8 32 1],
      example_engine\<lparr> FrameNumber := 1 \<rparr>, None)"
  by (simp add: Draw_def example_draw_env_def example_engine_def index_written_def
      clearValue_def flash_def)

lemma Draw_example_parts:
  "ended (Draw example_draw_env example_engine) = None"
  "state_of (Draw example_draw_env example_engine) = example_engine\<lparr> FrameNumber := 1 \<rparr>"
  "trace (Draw example_draw_env example_engine) =
       [WaitForFences 30 1000000000, ResetFences 30, AcquireNextImage 8 1000000000 31,
        ResetCommandBuffer 15, BeginCommandBuffer 15,
        CmdBeginRenderPass 15 16 21
          (FLit 0, FLit 0, FAbs (FSin (FDiv (FOfU64 0) (FLit 120))), FLit 1),
        CmdEndRenderPass 15, EndCommandBuffer 15,
        QueueSubmit 7 15 31 32 30, QueuePresent 7 8 32 1]"
  by (simp_all add: Draw_example ended_def state_of_def trace_def)

lemma Draw_timeout_example:
  "Draw timeout_draw_env example_engine = Draw example_draw_env example_engine"
  by (simp add: Draw_def timeout_draw_env_def Let_def)

lemma Draw_failed_present_example:
  "Draw failed_present_draw_env example_engine = Draw example_draw_env example_engine"
  by (simp add: Draw_def failed_present_draw_env_def Let_def)

lemma Draw_example_second:
  "ended (Draw example_draw_env (example_engine\<lparr> FrameNumber := 1 \<rparr>)) = None"
  by (simp add: Draw_def example_draw_env_def example_engine_def index_written_def ended_def)

lemma Draw_cycles_example:
  "ended (Draw_cycles [failed_present_draw_env, example_draw_env] example_engine) = None"
  by (simp add: seq_ended_None Draw_failed_present_example Draw_example_parts
      Draw_example_second ended_def [of "([], e, None)" for e])

lemma Initialize_failed_framebuffer_example:
  "Initialize failed_framebuffer_init_env (new_Engine ''VK2'', example_disk)
     = ([SdlInit, Create WindowK 1, Create InstanceK 2, Create DebugMessengerK 3,
         Create SurfaceK 4, Create DeviceK 6, Create SwapchainK 8,
         Create ImageViewK 12, Create ImageViewK 13, Create CommandPoolK 14,
         Create CommandBufferK 15, Create RenderPassK 16, Create FramebufferK 20],
        (example_engine\<lparr> IsInitialized := False, Framebuffers := [20, 0],
           PresentSemaphore := 0, RenderSemaphore := 0, RenderFence := 0 \<rparr>, example_disk),
        Some (RuntimeError ''Failed to create a framebuffer''))"
  by (simp add: Initialize_def seq_def on_engine_def Initialize_sdl_def Initialize_window_def
      InitVulkan_def InitSwapchain_def InitCommands_def InitDefaultRenderpass_def
      InitFramebuffers_def resize_def new_Engine_def example_init_env_def example_engine_def
      failed_framebuffer_init_env_def InitFramebuffers_loop.simps)

lemma Exec_failed_framebuffer_example:
  "Exec failed_framebuffer_exec_env ''VK2''
     = Some ([SdlInit, Create WindowK 1, Create InstanceK 2, Create DebugMessengerK 3,
         Create SurfaceK 4, Create DeviceK 6, Create SwapchainK 8,
         Create ImageViewK 12, Create ImageViewK 13, Create CommandPoolK 14,
         Create CommandBufferK 15, Create RenderPassK 16, Create FramebufferK 20,
         PrintWhat (RuntimeError ''Failed to create a framebuffer'')], ExitCode 1)"
  by (simp add: Exec_def failed_framebuffer_exec_env_def Initialize_failed_framebuffer_example)

lemma Run_timeout_example:
  "Run [\<lparr> pending = [SDL_QUIT], draw = timeout_draw_env \<rparr>] example_engine
     = Some ([Polled SDL_QUIT, WaitForFences 30 1000000000, ResetFences 30,
              AcquireNextImage 8 1000000000 31, ResetCommandBuffer 15, BeginCommandBuffer 15,
              CmdBeginRenderPass 15 16 21
                (FLit 0, FLit 0, FAbs (FSin (FDiv (FOfU64 0) (FLit 120))), FLit 1),
              CmdEndRenderPass 15,
              EndCommandBuffer 15, QueueSubmit 7 15 31 32 30, QueuePresent 7 8 32 1],
             example_engine\<lparr> FrameNumber := 1 \<rparr>, None)"
  by (simp add: Run_def Draw_timeout_example Draw_example)

lemma Cleanup_example_after:
  "Cleanup (example_engine\<lparr> FrameNumber := n \<rparr>) =
     ([Destroy CommandPoolK 14, Destroy SwapchainK 8, Destroy RenderPassK 16,
       Destroy FramebufferK 20, Destroy ImageViewK 12, Destroy FramebufferK 21,
       Destroy ImageViewK 13, Destroy DeviceK 6, Destroy SurfaceK 4,
       Destroy DebugMessengerK 3, Destroy InstanceK 2, Destroy WindowK 1],
      example_engine\<lparr> FrameNumber := n \<rparr>, None)"
  by (simp add: Cleanup_def seq_def example_engine_def Cleanup_loop.simps)

section \<open>The shader cache: properties\<close>

lemma CompileGlslToSpv_missing:
  "fs glslPath = None \<Longrightarrow> CompileGlslToSpv env glslPath sp fs = ([], fs, False)"
  by (simp add: CompileGlslToSpv_def)









text \<open>
  C8. When the source file is missing, loading fails with no compiler invocation and
  no change to the files, whether or not a cached artifact exists: without one the
  compile step returns false before opening anything, and the function throws; with one,
  asking for the modification time of the source throws.
\<close>

theorem LoadShaderModule_source_missing:
  assumes "fs glslPath = None"
  shows "ended (LoadShaderModule env glslPath fs) =
           Some (if fs (glslPath @ ''.spv'') = None
                 then RuntimeError (''Failed to compile '' @ glslPath @ '' to spv'')
                 else FilesystemError glslPath)
         \<and> compiler_invocations (trace (LoadShaderModule env glslPath fs)) = 0
         \<and> fst (state_of (LoadShaderModule env glslPath fs)) = fs"
  using assms
  by (auto simp: LoadShaderModule_def needs_compile_def CompileGlslToSpv_missing ended_def
      trace_def state_of_def compiler_invocations_def split: option.splits)

theorem LoadShaderModule_source_missing_witness:
  "ended (LoadShaderModule example_shader_env ''./Shaders/missing.vert'' example_disk)
     = Some (RuntimeError ''Failed to compile ./Shaders/missing.vert to spv'')
   \<and> compiler_invocations
       (trace (LoadShaderModule example_shader_env ''./Shaders/missing.vert'' example_disk)) = 0
   \<and> ended (LoadShaderModule example_shader_env ''./Shaders/triangle.vert''
              (example_disk(''./Shaders/triangle.vert'' := None)))
       = Some (FilesystemError ''./Shaders/triangle.vert'')
   \<and> compiler_invocations
       (trace (LoadShaderModule example_shader_env ''./Shaders/triangle.vert''
                 (example_disk(''./Shaders/triangle.vert'' := None)))) = 0"
proof -
  have gone: "(example_disk(''./Shaders/triangle.vert'' := None)) ''./Shaders/triangle.vert'' = None"
    by simp
  have kept: "(example_disk(''./Shaders/triangle.vert'' := None)) ''./Shaders/triangle.vert.spv''
                = example_disk ''./Shaders/triangle.vert.spv''"
    by simp
  show ?thesis
    using LoadShaderModule_source_missing [where fs = example_disk
        and glslPath = "''./Shaders/missing.vert''" and env = example_shader_env,
        OF example_disk_lookups(5)]
      LoadShaderModule_source_missing [where fs = "example_disk(''./Shaders/triangle.vert'' := None)"
        and glslPath = "''./Shaders/triangle.vert''" and env = example_shader_env, OF gone]
    by (simp add: example_disk_lookups kept del: fun_upd_apply)
qed

section \<open>The draw cycle: properties\<close>

lemma Draw_returns:
  "ended (Draw env e) = None \<Longrightarrow>
   state_of (Draw env e) = e\<lparr> FrameNumber := FrameNumber e + 1 \<rparr>"
  by (simp add: Draw_def ended_def state_of_def Let_def split: if_splits)

lemma Draw_cycles_FrameNumber:
  "ended (Draw_cycles envs e) = None \<Longrightarrow>
   FrameNumber (state_of (Draw_cycles envs e)) = FrameNumber e + of_nat (length envs)"
proof (induction envs arbitrary: e)
  case Nil
  then show ?case by (simp add: state_of_def)
next
  case (Cons d ds)
  from Cons.prems have d: "ended (Draw d e) = None"
    and ds: "ended (Draw_cycles ds (state_of (Draw d e))) = None"
    by (simp_all add: seq_ended_None)
  show ?case
    using Cons.IH [OF ds] by (simp add: seq_state_of d Draw_returns)
qed

text \<open>
  C1, as amended. Every draw cycle begins by waiting on the render fence with the
  timeout of 1000000000 ns and resets the fence directly after the wait returns, before
  the image is acquired and before the command buffer is reset and recorded; the fence
  is used again only by the queue submission at the end of a cycle that returns. The
  result of the wait is not looked at: a cycle whose wait timed out runs exactly as one
  whose fence signalled, and no draw cycle ends with an exception.
\<close>

theorem Draw_fence_wait_reset:
  "take 5 (trace (Draw env e)) =
     [WaitForFences (RenderFence e) 1000000000, ResetFences (RenderFence e),
      AcquireNextImage (Swapchain e) 1000000000 (PresentSemaphore e),
      ResetCommandBuffer (MainCommandBuffer e), BeginCommandBuffer (MainCommandBuffer e)]
   \<and> drop 5 (trace (Draw env e)) =
       (if ended (Draw env e) = None
        then [CmdBeginRenderPass (MainCommandBuffer e) (RenderPass e)
                (Framebuffers e ! unat (acquire_index env)) (clearValue (FrameNumber e)),
              CmdEndRenderPass (MainCommandBuffer e), EndCommandBuffer (MainCommandBuffer e),
              QueueSubmit (GraphicsQueue e) (MainCommandBuffer e) (PresentSemaphore e)
                (RenderSemaphore e) (RenderFence e),
              QueuePresent (GraphicsQueue e) (Swapchain e) (RenderSemaphore e)
                (acquire_index env)]
        else [])
   \<and> Draw (env\<lparr> wait_result := r \<rparr>) e = Draw env e
   \<and> (case ended (Draw env e) of None \<Rightarrow> True | Some err \<Rightarrow> \<not> is_exception err)"
  by (simp add: Draw_def trace_def ended_def Let_def)

text \<open>
  The claim as first stated fails: with the wait timing out the cycle returns normally,
  records and submits, and the next cycle runs.
\<close>

theorem Draw_fence_timeout_counterexample:
  "wait_result timeout_draw_env = VK_TIMEOUT
   \<and> ended (Draw timeout_draw_env example_engine) = None
   \<and> trace (Draw timeout_draw_env example_engine) =
       [WaitForFences 30 1000000000, ResetFences 30, AcquireNextImage 8 1000000000 31,
        ResetCommandBuffer 15, BeginCommandBuffer 15,
        CmdBeginRenderPass 15 16 21
          (FLit 0, FLit 0, FAbs (FSin (FDiv (FOfU64 0) (FLit 120))), FLit 1),
        CmdEndRenderPass 15, EndCommandBuffer 15,
        QueueSubmit 7 15 31 32 30, QueuePresent 7 8 32 1]
   \<and> ended (Draw example_draw_env (state_of (Draw timeout_draw_env example_engine))) = None"
proof -
  have "wait_result timeout_draw_env = VK_TIMEOUT"
    by (simp add: timeout_draw_env_def)
  then show ?thesis
    by (simp add: Draw_timeout_example Draw_example_parts Draw_example_second)
qed

text \<open>
  C2, as amended. The frame number goes up by exactly one in every draw cycle that
  returns, whatever the present step reports; after \<open>N\<close> such cycles starting from frame
  number 0 it is \<open>N\<close> modulo \<open>2 ^ 64\<close>, the counter being a 64-bit unsigned integer.
\<close>

theorem FrameNumber_counts_cycles:
  assumes "ended (Draw_cycles envs e) = None"
  shows "unat (FrameNumber (state_of (Draw_cycles envs e)))
           = (unat (FrameNumber e) + length envs) mod 2 ^ 64"
  using Draw_cycles_FrameNumber [OF assms]
  by (simp add: unat_word_ariths unat_of_nat mod_add_right_eq)

theorem FrameNumber_counts_cycles_witness:
  "ended (Draw_cycles [failed_present_draw_env, example_draw_env] example_engine) = None
   \<and> unat (FrameNumber (state_of
        (Draw_cycles [failed_present_draw_env, example_draw_env] example_engine))) = 2"
  using FrameNumber_counts_cycles [OF Draw_cycles_example] Draw_cycles_example
  by (simp add: example_engine_def)

text \<open>
  The claim as first stated fails: a cycle whose present step fails raises the frame
  number all the same.
\<close>

theorem FrameNumber_failed_present_counterexample:
  "present_result failed_present_draw_env = VK_ERROR_OUT_OF_DATE_KHR
   \<and> FrameNumber example_engine = 0
   \<and> ended (Draw failed_present_draw_env example_engine) = None
   \<and> FrameNumber (state_of (Draw failed_present_draw_env example_engine)) = 1"
proof -
  have "present_result failed_present_draw_env = VK_ERROR_OUT_OF_DATE_KHR"
    by (simp add: failed_present_draw_env_def)
  moreover have "FrameNumber example_engine = 0"
    by (simp add: example_engine_def)
  ultimately show ?thesis
    by (simp add: Draw_failed_present_example Draw_example_parts)
qed

lemma flash_exact:
  "float_value exact_ops (flash frameNumber) = \<bar>sin (real (unat frameNumber) / 120)\<bar>"
  by (simp add: flash_def exact_ops_def)



section \<open>Initialisation: properties\<close>

lemma stored_step:
  "i < n \<Longrightarrow> stored env i n fbs = stored env (Suc i) n (fbs[i := snd (create_framebuffer env i)])"
  by (simp add: stored_def upt_conv_Cons)

lemma stored_done: "n \<le> i \<Longrightarrow> stored env i n fbs = fbs"
  by (simp add: stored_def)

lemma length_fold_update: "length (fold (\<lambda>j xs. xs[j := f j]) js fbs) = length fbs"
  by (induction js arbitrary: fbs) auto

lemma nth_fold_update:
  "j < length fbs \<Longrightarrow>
   fold (\<lambda>j xs. xs[j := f j]) js fbs ! j = (if j \<in> set js then f j else fbs ! j)"
  by (induction js arbitrary: fbs) (auto simp: nth_list_update)

lemma length_stored: "length (stored env i n fbs) = length fbs"
  by (simp add: stored_def length_fold_update)

lemma nth_stored:
  "j < length fbs \<Longrightarrow>
   stored env i n fbs ! j = (if i \<le> j \<and> j < n then snd (create_framebuffer env j) else fbs ! j)"
  by (simp add: stored_def nth_fold_update)

lemma InitFramebuffers_loop_ok:
  "ended (InitFramebuffers_loop env n i e) = None \<Longrightarrow>
   InitFramebuffers_loop env n i e =
     (map (\<lambda>j. Create FramebufferK (snd (create_framebuffer env j))) [i..<n],
      e\<lparr> Framebuffers := stored env i n (Framebuffers e) \<rparr>, None)"
proof (induction env n i e rule: InitFramebuffers_loop.induct)
  case (1 env n i e)
  show ?case
  proof (cases "i < n")
    case False
    then show ?thesis
      by (subst InitFramebuffers_loop.simps) (simp add: stored_done)
  next
    case True
    obtain r fb where cf: "create_framebuffer env i = (r, fb)"
      by (cases "create_framebuffer env i") auto
    note unf = InitFramebuffers_loop.simps [of env n i e]
    from "1.prems" True cf
    have inb: "\<not> (length (SwapchainImageViews e) \<le> i \<or> length (Framebuffers e) \<le> i)"
      and r: "r = VK_SUCCESS"
      by (auto simp: unf ended_def split: if_splits)
    let ?e' = "e\<lparr> Framebuffers := (Framebuffers e)[i := fb] \<rparr>"
    from "1.prems" True cf inb r
    have rest: "ended (InitFramebuffers_loop env n (Suc i) ?e') = None"
      by (auto simp: unf ended_def split: prod.splits)
    have ih: "InitFramebuffers_loop env n (Suc i) ?e' =
       (map (\<lambda>j. Create FramebufferK (snd (create_framebuffer env j))) [Suc i..<n],
        ?e'\<lparr> Framebuffers := stored env (Suc i) n (Framebuffers ?e') \<rparr>, None)"
      using "1.IH" [OF True inb cf [symmetric]] r rest by simp
    show ?thesis
      using True inb cf r ih
      by (simp add: unf upt_conv_Cons stored_step)
  qed
qed

lemma InitFramebuffers_loop_failed:
  assumes "k \<le> i" "i < n" "n \<le> length (SwapchainImageViews e)" "n \<le> length (Framebuffers e)"
    and "\<forall>j. k \<le> j \<and> j < i \<longrightarrow> fst (create_framebuffer env j) = VK_SUCCESS"
    and "fst (create_framebuffer env i) \<noteq> VK_SUCCESS"
  shows "InitFramebuffers_loop env n k e =
     (map (\<lambda>j. Create FramebufferK (snd (create_framebuffer env j))) [k..<i],
      e\<lparr> Framebuffers := stored env k i (Framebuffers e) \<rparr>,
      Some (RuntimeError ''Failed to create a framebuffer''))"
  using assms
proof (induction "i - k" arbitrary: k e)
  case 0
  then have "k = i" by simp
  with 0 show ?case
    by (subst InitFramebuffers_loop.simps) (auto simp: stored_done split: prod.splits)
next
  case (Suc m)
  then have lt: "k < i" by simp
  obtain r fb where cf: "create_framebuffer env k = (r, fb)"
    by (cases "create_framebuffer env k") auto
  have r: "r = VK_SUCCESS" using Suc.prems(5) lt cf by force
  let ?e' = "e\<lparr> Framebuffers := (Framebuffers e)[k := fb] \<rparr>"
  have ih: "InitFramebuffers_loop env n (Suc k) ?e' =
     (map (\<lambda>j. Create FramebufferK (snd (create_framebuffer env j))) [Suc k..<i],
      ?e'\<lparr> Framebuffers := stored env (Suc k) i (Framebuffers ?e') \<rparr>,
      Some (RuntimeError ''Failed to create a framebuffer''))"
    using Suc.hyps(2) Suc.prems lt by (intro Suc.hyps(1)) auto
  show ?case
    using lt Suc.prems cf r ih
    by (subst InitFramebuffers_loop.simps) (simp add: upt_conv_Cons stored_step)
qed

lemma InitFramebuffers_loop_state:
  "\<exists>fbs. state_of (InitFramebuffers_loop env n i e) = e\<lparr> Framebuffers := fbs \<rparr>
         \<and> length fbs = length (Framebuffers e)"
proof (induction env n i e rule: InitFramebuffers_loop.induct)
  case (1 env n i e)
  note unf = InitFramebuffers_loop.simps [of env n i e]
  show ?case
  proof (cases "i < n \<and> \<not> (length (SwapchainImageViews e) \<le> i \<or> length (Framebuffers e) \<le> i)
                \<and> fst (create_framebuffer env i) = VK_SUCCESS")
    case False
    have "state_of (InitFramebuffers_loop env n i e) = e"
      using False by (auto simp: unf state_of_def split: prod.splits)
    then have "state_of (InitFramebuffers_loop env n i e) = e\<lparr> Framebuffers := Framebuffers e \<rparr>"
      by simp
    then show ?thesis by blast
  next
    case True
    obtain r fb where cf: "create_framebuffer env i = (r, fb)"
      by (cases "create_framebuffer env i") auto
    with True have r: "r = VK_SUCCESS" by simp
    let ?e' = "e\<lparr> Framebuffers := (Framebuffers e)[i := fb] \<rparr>"
    from "1.IH" [of r fb] True cf r
    obtain fbs where fbs: "state_of (InitFramebuffers_loop env n (Suc i) ?e') = ?e'\<lparr> Framebuffers := fbs \<rparr>"
      "length fbs = length (Framebuffers ?e')"
      by auto
    have "state_of (InitFramebuffers_loop env n i e) = e\<lparr> Framebuffers := fbs \<rparr>"
      using True cf r fbs(1) by (auto simp: unf state_of_def split: prod.splits)
    with fbs(2) show ?thesis by auto
  qed
qed

lemma InitFramebuffers_loop_no_destroy: "destroyed (trace (InitFramebuffers_loop env n i e)) = []"
proof (induction env n i e rule: InitFramebuffers_loop.induct)
  case (1 env n i e)
  note unf = InitFramebuffers_loop.simps [of env n i e]
  show ?case
  proof (cases "i < n \<and> \<not> (length (SwapchainImageViews e) \<le> i \<or> length (Framebuffers e) \<le> i)
                \<and> fst (create_framebuffer env i) = VK_SUCCESS")
    case False
    then show ?thesis by (auto simp: unf trace_def split: prod.splits)
  next
    case True
    obtain r fb where cf: "create_framebuffer env i = (r, fb)"
      by (cases "create_framebuffer env i") auto
    with True have r: "r = VK_SUCCESS" by simp
    from "1.IH" [of r fb] True cf r
    have "destroyed (trace (InitFramebuffers_loop env n (Suc i)
            (e\<lparr> Framebuffers := (Framebuffers e)[i := fb] \<rparr>))) = []"
      by auto
    then show ?thesis
      using True cf r by (auto simp: unf trace_def split: prod.splits)
  qed
qed

lemma Initialize_sdl_ok:
  "ended (Initialize_sdl env e) = None \<Longrightarrow> Initialize_sdl env e = ([SdlInit], e, None)"
  by (auto simp: Initialize_sdl_def ended_def split: if_splits)

lemma Initialize_window_ok:
  "ended (Initialize_window env e) = None \<Longrightarrow>
   Initialize_window env e =
     ([Create WindowK (sdl_create_window env)], e\<lparr> Window := sdl_create_window env \<rparr>, None)"
  by (auto simp: Initialize_window_def ended_def Let_def split: if_splits)

lemma InitVulkan_ok:
  "InitVulkan env e =
     ([Create InstanceK (fst (vkb_instance env)), Create DebugMessengerK (snd (vkb_instance env))]
      @ surface_created env @ [Create DeviceK (vkb_device env)],
      e\<lparr> Instance := fst (vkb_instance env), DebugMessenger := snd (vkb_instance env),
         Surface := surface_after env (Surface e),
         ChosenGPU := vkb_physical_device env,
         Device := vkb_device env, GraphicsQueue := vkb_queue env,
         GraphicsQueueFamily := vkb_queue_index env \<rparr>, None)"
  by (simp add: InitVulkan_def Let_def surface_after_def surface_created_def)

lemma InitSwapchain_ok:
  "InitSwapchain env e =
     (Create SwapchainK (vkb_swapchain env) # map (Create ImageViewK) (vkb_image_views env),
      e\<lparr> Swapchain := vkb_swapchain env, SwapchainImages := vkb_images env,
         SwapchainImageViews := vkb_image_views env, SwapchainFormat := vkb_image_format env \<rparr>,
      None)"
  by (simp add: InitSwapchain_def Let_def)

lemma InitCommands_ok:
  "ended (InitCommands env e) = None \<Longrightarrow>
   InitCommands env e =
     ([Create CommandPoolK (snd (create_command_pool env)),
       Create CommandBufferK (snd (allocate_command_buffers env))],
      e\<lparr> CommandPool := snd (create_command_pool env),
         MainCommandBuffer := snd (allocate_command_buffers env) \<rparr>, None)"
  by (auto simp: InitCommands_def ended_def Let_def split: if_splits prod.splits)

lemma InitDefaultRenderpass_ok:
  "ended (InitDefaultRenderpass env e) = None \<Longrightarrow>
   InitDefaultRenderpass env e =
     ([Create RenderPassK (snd (create_render_pass env))],
      e\<lparr> RenderPass := snd (create_render_pass env) \<rparr>, None)"
  by (auto simp: InitDefaultRenderpass_def ended_def split: if_splits prod.splits)

lemma InitFramebuffers_ok:
  "ended (InitFramebuffers env e) = None \<Longrightarrow>
   InitFramebuffers env e =
     (map (\<lambda>j. Create FramebufferK (snd (create_framebuffer env j)))
        [0..<length (SwapchainImages e)],
      e\<lparr> Framebuffers := stored env 0 (length (SwapchainImages e))
                            (resize (length (SwapchainImages e)) (Framebuffers e)) \<rparr>, None)"
  using InitFramebuffers_loop_ok [of env "length (SwapchainImages e)" 0
      "e\<lparr> Framebuffers := resize (length (SwapchainImages e)) (Framebuffers e) \<rparr>"]
  by (simp add: InitFramebuffers_def Let_def)

lemma InitSyncStructures_ok:
  "ended (InitSyncStructures env e) = None \<Longrightarrow>
   InitSyncStructures env e =
     ([Create FenceK (snd (create_fence env)),
       Create SemaphoreK (snd (create_present_semaphore env)),
       Create SemaphoreK (snd (create_render_semaphore env))],
      e\<lparr> RenderFence := snd (create_fence env),
         PresentSemaphore := snd (create_present_semaphore env),
         RenderSemaphore := snd (create_render_semaphore env) \<rparr>, None)"
  by (auto simp: InitSyncStructures_def ended_def Let_def split: if_splits prod.splits)

lemma read_and_create_resources:
  "filter managed (created (trace (read_and_create env p fs))) = []"
  "destroyed (trace (read_and_create env p fs)) = []"
  by (auto simp: read_and_create_def trace_def Let_def split: option.splits prod.splits)

lemma CompileGlslToSpv_resources:
  "created (fst (CompileGlslToSpv env g sp fs)) = []"
  "destroyed (fst (CompileGlslToSpv env g sp fs)) = []"
  by (auto simp: CompileGlslToSpv_def Let_def split: option.splits)

lemma LoadShaderModule_resources:
  "filter managed (created (trace (LoadShaderModule env g fs))) = []"
  "destroyed (trace (LoadShaderModule env g fs)) = []"
proof -
  have *: "filter managed (created (trace (LoadShaderModule env g fs))) = []
         \<and> destroyed (trace (LoadShaderModule env g fs)) = []"
  proof (cases "needs_compile fs g (g @ ''.spv'')")
    case (Inl err)
    then show ?thesis by (simp add: LoadShaderModule_def trace_def)
  next
    case (Inr b)
    show ?thesis
    proof (cases b)
      case False
      with Inr show ?thesis
        by (simp add: LoadShaderModule_def read_and_create_resources)
    next
      case True
      obtain ev fs' ok where c: "CompileGlslToSpv env g (Some (g @ ''.spv'')) fs = (ev, fs', ok)"
        by (cases "CompileGlslToSpv env g (Some (g @ ''.spv'')) fs") auto
      have ev: "created ev = []" "destroyed ev = []"
        using CompileGlslToSpv_resources [of env g "Some (g @ ''.spv'')" fs] c by simp_all
      obtain ev' out r where rc: "read_and_create env (g @ ''.spv'') fs' = (ev', out, r)"
        by (cases "read_and_create env (g @ ''.spv'') fs'") auto
      have ev': "filter managed (created ev') = []" "destroyed ev' = []"
        using read_and_create_resources [of env "g @ ''.spv''" fs'] rc by (simp_all add: trace_def)
      show ?thesis
        using Inr True c rc ev ev'
        by (simp add: LoadShaderModule_def trace_def created_append destroyed_append)
    qed
  qed
  from * show "filter managed (created (trace (LoadShaderModule env g fs))) = []"
    and "destroyed (trace (LoadShaderModule env g fs)) = []" by simp_all
qed

lemma InitPipelines_resources:
  "filter managed (created (trace (InitPipelines env (e, fs)))) = []"
  "destroyed (trace (InitPipelines env (e, fs))) = []"
  "fst (state_of (InitPipelines env (e, fs))) = e"
proof -
  obtain ev fs' h r where v: "LoadShaderModule env ''./Shaders/triangle.vert'' fs = (ev, (fs', h), r)"
    by (cases "LoadShaderModule env ''./Shaders/triangle.vert'' fs") auto
  obtain ev2 fs2 h2 r2 where f: "LoadShaderModule env ''./Shaders/triangle.frag'' fs' = (ev2, (fs2, h2), r2)"
    by (cases "LoadShaderModule env ''./Shaders/triangle.frag'' fs'") auto
  have a: "filter managed (created ev) = []" "destroyed ev = []"
    using LoadShaderModule_resources [of env "''./Shaders/triangle.vert''" fs] v
    by (simp_all add: trace_def)
  have b: "filter managed (created ev2) = []" "destroyed ev2 = []"
    using LoadShaderModule_resources [of env "''./Shaders/triangle.frag''" fs'] f
    by (simp_all add: trace_def)
  show "filter managed (created (trace (InitPipelines env (e, fs)))) = []"
    using v f a b by (cases r) (simp_all add: InitPipelines_def trace_def created_append)
  show "destroyed (trace (InitPipelines env (e, fs))) = []"
    using v f a b by (cases r) (simp_all add: InitPipelines_def trace_def destroyed_append)
  show "fst (state_of (InitPipelines env (e, fs))) = e"
    using v f by (cases r) (simp_all add: InitPipelines_def state_of_def)
qed

lemma Initialize_ok:
  assumes ok: "ended (Initialize env (e0, fs)) = None"
  shows "fst (state_of (Initialize env (e0, fs))) = init_engine env e0
       \<and> (\<exists>evp. trace (Initialize env (e0, fs)) = init_prefix env @ evp
                \<and> filter managed (created evp) = [] \<and> destroyed evp = [])"
proof -
  note ok' = ok [unfolded Initialize_def]
  note c1 = seq_on_engine_ok [OF ok' Initialize_sdl_ok]
  note c2 = seq_on_engine_ok [OF c1 [THEN conjunct1] Initialize_window_ok]
  note c3 = seq_on_engine_ok [OF c2 [THEN conjunct1] InitVulkan_ok]
  note c4 = seq_on_engine_ok [OF c3 [THEN conjunct1] InitSwapchain_ok]
  note c5 = seq_on_engine_ok [OF c4 [THEN conjunct1] InitCommands_ok]
  note c6 = seq_on_engine_ok [OF c5 [THEN conjunct1] InitDefaultRenderpass_ok]
  note c7 = seq_on_engine_ok [OF c6 [THEN conjunct1] InitFramebuffers_ok]
  note c8 = seq_on_engine_ok [OF c7 [THEN conjunct1] InitSyncStructures_ok]
  let ?e8 = "init_engine env e0\<lparr> IsInitialized := IsInitialized e0 \<rparr>"
  have last: "ended (seq (InitPipelines (shaders env)) (on_engine set_initialized) (?e8, fs)) = None"
    using c8 [THEN conjunct1] by (simp add: init_engine_def)
  have tr: "trace (Initialize env (e0, fs)) = init_prefix env
              @ trace (seq (InitPipelines (shaders env)) (on_engine set_initialized) (?e8, fs))"
    using c1 c2 c3 c4 c5 c6 c7 c8 by (simp add: Initialize_def init_prefix_def init_engine_def)
  have st: "state_of (Initialize env (e0, fs))
              = state_of (seq (InitPipelines (shaders env)) (on_engine set_initialized) (?e8, fs))"
    using c1 c2 c3 c4 c5 c6 c7 c8 by (simp add: Initialize_def init_engine_def)
  from last have p: "ended (InitPipelines (shaders env) (?e8, fs)) = None"
    by (simp add: seq_ended_None)
  have tr2: "trace (seq (InitPipelines (shaders env)) (on_engine set_initialized) (?e8, fs))
               = trace (InitPipelines (shaders env) (?e8, fs))"
    using p by (simp add: seq_trace on_engine_fst set_initialized_def step_parts)
  have st2: "fst (state_of (seq (InitPipelines (shaders env)) (on_engine set_initialized) (?e8, fs)))
               = init_engine env e0"
    using p by (simp add: seq_state_of on_engine_fst set_initialized_def step_parts
        InitPipelines_resources init_engine_def)
  show ?thesis
    using tr tr2 st st2 InitPipelines_resources(1,2) [of "shaders env" ?e8 fs]
    by simp
qed

lemma InitFramebuffers_size:
  "length (Framebuffers (state_of (InitFramebuffers env e))) = length (SwapchainImages e)"
proof -
  let ?n = "length (SwapchainImages e)"
  let ?e = "e\<lparr> Framebuffers := resize ?n (Framebuffers e) \<rparr>"
  obtain fbs where "state_of (InitFramebuffers_loop env ?n 0 ?e) = ?e\<lparr> Framebuffers := fbs \<rparr>"
    "length fbs = length (Framebuffers ?e)"
    using InitFramebuffers_loop_state [of env ?n 0 ?e] by auto
  then show ?thesis
    by (simp add: InitFramebuffers_def Let_def resize_def)
qed

lemma InitFramebuffers_flag:
  "IsInitialized (state_of (InitFramebuffers env e)) = IsInitialized e"
proof -
  let ?n = "length (SwapchainImages e)"
  let ?e = "e\<lparr> Framebuffers := resize ?n (Framebuffers e) \<rparr>"
  obtain fbs where "state_of (InitFramebuffers_loop env ?n 0 ?e) = ?e\<lparr> Framebuffers := fbs \<rparr>"
    using InitFramebuffers_loop_state [of env ?n 0 ?e] by auto
  then show ?thesis
    by (simp add: InitFramebuffers_def Let_def)
qed

lemma step_flags:
  "IsInitialized (state_of (Initialize_sdl env e)) = IsInitialized e"
  "IsInitialized (state_of (Initialize_window env e)) = IsInitialized e"
  "IsInitialized (state_of (InitVulkan env e)) = IsInitialized e"
  "IsInitialized (state_of (InitSwapchain env e)) = IsInitialized e"
  "IsInitialized (state_of (InitCommands env e)) = IsInitialized e"
  "IsInitialized (state_of (InitDefaultRenderpass env e)) = IsInitialized e"
  "IsInitialized (state_of (InitSyncStructures env e)) = IsInitialized e"
  by (auto simp: Initialize_sdl_def Initialize_window_def InitVulkan_ok InitSwapchain_ok
      InitCommands_def InitDefaultRenderpass_def InitSyncStructures_def state_of_def Let_def
      split: prod.splits)

lemma step_no_destroy:
  "destroyed (trace (Initialize_sdl env e)) = []"
  "destroyed (trace (Initialize_window env e)) = []"
  "destroyed (trace (InitVulkan env e)) = []"
  "destroyed (trace (InitCommands env e)) = []"
  "destroyed (trace (InitDefaultRenderpass env e)) = []"
  "destroyed (trace (InitFramebuffers env e)) = []"
  "destroyed (trace (InitSyncStructures env e)) = []"
  by (auto simp: Initialize_sdl_def Initialize_window_def InitVulkan_ok surface_created_def
      InitCommands_def InitDefaultRenderpass_def InitSyncStructures_def trace_def Let_def
      InitFramebuffers_def InitFramebuffers_loop_no_destroy [unfolded trace_def]
      split: prod.splits)

lemma InitSwapchain_no_destroy: "destroyed (trace (InitSwapchain env e)) = []"
  by (simp add: InitSwapchain_ok trace_def destroyed_map_Create)

lemma seq_no_destroy:
  assumes "\<And>s. destroyed (trace (f s)) = []" "\<And>s. destroyed (trace (g s)) = []"
  shows "destroyed (trace (seq f g s)) = []"
proof (cases "ended (f s)")
  case None
  then show ?thesis using assms by (simp add: seq_trace destroyed_append)
next
  case (Some err)
  then show ?thesis using assms by (simp add: seq_failed)
qed

lemma Initialize_no_destroy: "destroyed (trace (Initialize env s)) = []"
  unfolding Initialize_def
  by (intro seq_no_destroy)
    (simp_all add: on_engine_fst step_no_destroy InitSwapchain_no_destroy set_initialized_def
      step_parts InitPipelines_resources(2) [of _ "fst s" "snd s" for s, simplified])

lemma Initialize_flag:
  "IsInitialized (fst (state_of (Initialize env s)))
     = (IsInitialized (fst s) \<or> ended (Initialize env s) = None)"
proof -
  have last: "IsInitialized (fst (state_of (seq (InitPipelines (shaders env)) (on_engine set_initialized) s)))
     = (IsInitialized (fst s) \<or> ended (seq (InitPipelines (shaders env)) (on_engine set_initialized) s) = None)"
    for s
  proof (cases "ended (InitPipelines (shaders env) s)")
    case None
    then show ?thesis
      by (simp add: seq_state_of seq_ended_None on_engine_fst set_initialized_def step_parts)
  next
    case (Some err)
    then show ?thesis
      using InitPipelines_resources(3) [of "shaders env" "fst s" "snd s"]
      by (simp add: seq_failed)
  qed
  show ?thesis
    unfolding Initialize_def
    by (intro seq_flag [where X = "\<lambda>s. IsInitialized (fst s)"] last)
      (simp_all add: on_engine_fst step_flags InitFramebuffers_flag)
qed

text \<open>
  C5, as amended. When the creation of the framebuffer for image \<open>i\<close> fails, after
  the creations for the images before it succeeded, framebuffer setup ends with the
  runtime error \<^verbatim>\<open>Failed to create a framebuffer\<close>. The framebuffers for the images
  before \<open>i\<close> have been created and none is released: the trace of the setup holds their
  creations and no destroy call, and their handles stay in \<open>Framebuffers\<close>.
\<close>

theorem InitFramebuffers_failure:
  assumes "i < length (SwapchainImages e)"
    and "length (SwapchainImages e) \<le> length (SwapchainImageViews e)"
    and "\<forall>j<i. fst (create_framebuffer env j) = VK_SUCCESS"
    and "fst (create_framebuffer env i) \<noteq> VK_SUCCESS"
  shows "ended (InitFramebuffers env e) = Some (RuntimeError ''Failed to create a framebuffer'')
       \<and> trace (InitFramebuffers env e)
           = map (\<lambda>j. Create FramebufferK (snd (create_framebuffer env j))) [0..<i]
       \<and> destroyed (trace (InitFramebuffers env e)) = []
       \<and> take i (Framebuffers (state_of (InitFramebuffers env e)))
           = map (\<lambda>j. snd (create_framebuffer env j)) [0..<i]"
proof -
  let ?n = "length (SwapchainImages e)"
  let ?e = "e\<lparr> Framebuffers := resize ?n (Framebuffers e) \<rparr>"
  have len: "length (resize ?n (Framebuffers e)) = ?n"
    by (simp add: resize_def)
  have run: "InitFramebuffers env e =
     (map (\<lambda>j. Create FramebufferK (snd (create_framebuffer env j))) [0..<i],
      ?e\<lparr> Framebuffers := stored env 0 i (Framebuffers ?e) \<rparr>,
      Some (RuntimeError ''Failed to create a framebuffer''))"
    using assms len InitFramebuffers_loop_failed [of 0 i ?n ?e env]
    by (simp add: InitFramebuffers_def Let_def)
  have "take i (stored env 0 i (resize ?n (Framebuffers e)))
          = map (\<lambda>j. snd (create_framebuffer env j)) [0..<i]"
    using assms(1) len by (intro nth_equalityI) (simp_all add: length_stored nth_stored)
  then show ?thesis
    by (simp add: run step_parts destroyed_map_Create_fun)
qed

theorem InitFramebuffers_failure_witness:
  "ended (InitFramebuffers failed_framebuffer_init_env
            (example_engine\<lparr> Framebuffers := [] \<rparr>))
     = Some (RuntimeError ''Failed to create a framebuffer'')
   \<and> trace (InitFramebuffers failed_framebuffer_init_env
               (example_engine\<lparr> Framebuffers := [] \<rparr>)) = [Create FramebufferK 20]
   \<and> take 1 (Framebuffers (state_of (InitFramebuffers failed_framebuffer_init_env
               (example_engine\<lparr> Framebuffers := [] \<rparr>)))) = [20]"
proof -
  have a: "1 < length (SwapchainImages (example_engine\<lparr> Framebuffers := [] \<rparr>))"
    "length (SwapchainImages (example_engine\<lparr> Framebuffers := [] \<rparr>))
       \<le> length (SwapchainImageViews (example_engine\<lparr> Framebuffers := [] \<rparr>))"
    by (simp_all add: example_engine_def)
  have b: "\<forall>j<1. fst (create_framebuffer failed_framebuffer_init_env j) = VK_SUCCESS"
    "fst (create_framebuffer failed_framebuffer_init_env 1) \<noteq> VK_SUCCESS"
    by (simp_all add: failed_framebuffer_init_env_def)
  have c: "snd (create_framebuffer failed_framebuffer_init_env 0) = 20"
    by (simp add: failed_framebuffer_init_env_def)
  show ?thesis
    using InitFramebuffers_failure [OF a b] by (simp add: c)
qed

text \<open>
  The claim as first stated fails: in the run where the second framebuffer cannot be
  created, the program prints the error and exits with 1, and the first framebuffer is
  never destroyed.
\<close>

theorem InitFramebuffers_release_counterexample:
  "map_option snd (Exec failed_framebuffer_exec_env ''VK2'') = Some (ExitCode 1)
   \<and> map_option (printed \<circ> fst) (Exec failed_framebuffer_exec_env ''VK2'')
       = Some [RuntimeError ''Failed to create a framebuffer'']
   \<and> map_option (filter (\<lambda>r. fst r = FramebufferK) \<circ> created \<circ> fst)
         (Exec failed_framebuffer_exec_env ''VK2'') = Some [(FramebufferK, 20)]
   \<and> map_option (destroyed \<circ> fst) (Exec failed_framebuffer_exec_env ''VK2'') = Some []"
  by (simp add: Exec_failed_framebuffer_example)

text \<open>
  C10. The draw cycle reads \<open>Framebuffers\<close> at the acquired index with no check. The
  cycle returns exactly when the acquisition wrote an index and that index is below the
  number of framebuffers; otherwise it leaves defined behaviour, by reading the index
  that was never written when the acquisition failed or timed out, or by indexing out
  of range. No exception is raised for either. Framebuffer setup sizes \<open>Framebuffers\<close> to
  the number of swapchain images.
\<close>

theorem Draw_framebuffer_index:
  "(ended (Draw env e) = None) =
     (index_written (acquire_result env) \<and> unat (acquire_index env) < length (Framebuffers e))
   \<and> (\<not> index_written (acquire_result env) \<longrightarrow> ended (Draw env e) = Some UninitializedRead)
   \<and> (index_written (acquire_result env) \<and> length (Framebuffers e) \<le> unat (acquire_index env)
        \<longrightarrow> ended (Draw env e) = Some OutOfBounds)
   \<and> length (Framebuffers (state_of (InitFramebuffers ienv e))) = length (SwapchainImages e)"
  by (auto simp: Draw_def ended_def Let_def InitFramebuffers_size)

theorem Draw_framebuffer_index_witness:
  "ended (Draw example_draw_env example_engine) = None
   \<and> \<not> index_written VK_TIMEOUT
   \<and> ended (Draw (example_draw_env\<lparr> acquire_result := VK_TIMEOUT \<rparr>) example_engine)
       = Some UninitializedRead
   \<and> index_written VK_SUCCESS \<and> length (Framebuffers example_engine) \<le> unat (2 :: 32 word)
   \<and> ended (Draw (example_draw_env\<lparr> acquire_index := 2 \<rparr>) example_engine) = Some OutOfBounds
   \<and> length (Framebuffers (state_of (InitFramebuffers example_init_env example_engine))) = 2"
proof -
  have a: "index_written (acquire_result example_draw_env)"
    "unat (acquire_index example_draw_env) < length (Framebuffers example_engine)"
    "\<not> index_written VK_TIMEOUT" "index_written VK_SUCCESS"
    "length (Framebuffers example_engine) \<le> unat (2 :: 32 word)"
    "length (SwapchainImages example_engine) = 2"
    by (simp_all add: example_draw_env_def example_engine_def index_written_def)
  show ?thesis
    using Draw_framebuffer_index [of example_draw_env example_engine example_init_env]
      Draw_framebuffer_index [of "example_draw_env\<lparr> acquire_result := VK_TIMEOUT \<rparr>"
        example_engine example_init_env]
      Draw_framebuffer_index [of "example_draw_env\<lparr> acquire_index := 2 \<rparr>"
        example_engine example_init_env] a
    by (simp add: example_draw_env_def)
qed

section \<open>Teardown: properties\<close>

lemma Cleanup_loop_ok:
  "length (SwapchainImageViews e) \<le> length (Framebuffers e) \<Longrightarrow>
   Cleanup_loop i e =
     (concat (map (\<lambda>j. [Destroy FramebufferK (Framebuffers e ! j),
                           Destroy ImageViewK (SwapchainImageViews e ! j)])
                [i..<length (SwapchainImageViews e)]), e, None)"
proof (induction i e rule: Cleanup_loop.induct)
  case (1 i e)
  note unf = Cleanup_loop.simps [of i e]
  show ?case
  proof (cases "i < length (SwapchainImageViews e)")
    case False
    then show ?thesis by (simp add: unf)
  next
    case True
    with "1.prems" have inb: "\<not> length (Framebuffers e) \<le> i" by simp
    show ?thesis
      using True inb "1.IH" [OF True inb "1.prems"]
      by (simp add: unf upt_conv_Cons)
  qed
qed

lemma Cleanup_ok:
  assumes "IsInitialized e" "length (SwapchainImageViews e) \<le> length (Framebuffers e)"
  shows "Cleanup e =
     ([Destroy CommandPoolK (CommandPool e), Destroy SwapchainK (Swapchain e),
       Destroy RenderPassK (RenderPass e)]
      @ concat (map (\<lambda>j. [Destroy FramebufferK (Framebuffers e ! j),
                             Destroy ImageViewK (SwapchainImageViews e ! j)])
                  [0..<length (SwapchainImageViews e)])
      @ [Destroy DeviceK (Device e), Destroy SurfaceK (Surface e),
         Destroy DebugMessengerK (DebugMessenger e), Destroy InstanceK (Instance e),
         Destroy WindowK (Window e)], e, None)"
  using assms by (simp add: Cleanup_def seq_def Cleanup_loop_ok)

lemma Cleanup_uninitialized: "\<not> IsInitialized e \<Longrightarrow> Cleanup e = ([], e, None)"
  by (simp add: Cleanup_def)

lemma Cleanup_initialized:
  assumes "ended (Initialize env (new_Engine name, fs)) = None"
    and "length (vkb_image_views env) = length (vkb_images env)"
  shows "ended (Cleanup (fst (state_of (Initialize env (new_Engine name, fs)))\<lparr> FrameNumber := n \<rparr>))
           = None
       \<and> destroyed (trace (Cleanup
            (fst (state_of (Initialize env (new_Engine name, fs)))\<lparr> FrameNumber := n \<rparr>))) \<noteq> []"
proof -
  let ?e = "init_engine env (new_Engine name)\<lparr> FrameNumber := n \<rparr>"
  have e: "fst (state_of (Initialize env (new_Engine name, fs))) = init_engine env (new_Engine name)"
    using Initialize_ok [OF assms(1)] by simp
  have "IsInitialized ?e" "length (SwapchainImageViews ?e) \<le> length (Framebuffers ?e)"
    using assms(2) by (simp_all add: init_engine_def length_stored resize_def)
  from Cleanup_ok [OF this] show ?thesis
    by (simp add: e step_parts)
qed

lemma created_init_prefix:
  "created (init_prefix env) =
     [(WindowK, sdl_create_window env), (InstanceK, fst (vkb_instance env)),
      (DebugMessengerK, snd (vkb_instance env))]
     @ created (surface_created env)
     @ [(DeviceK, vkb_device env), (SwapchainK, vkb_swapchain env)]
     @ map (Pair ImageViewK) (vkb_image_views env)
     @ [(CommandPoolK, snd (create_command_pool env)),
        (CommandBufferK, snd (allocate_command_buffers env)),
        (RenderPassK, snd (create_render_pass env))]
     @ map (\<lambda>j. (FramebufferK, snd (create_framebuffer env j))) [0..<length (vkb_images env)]
     @ [(FenceK, snd (create_fence env)), (SemaphoreK, snd (create_present_semaphore env)),
        (SemaphoreK, snd (create_render_semaphore env))]"
  by (simp add: init_prefix_def created_append created_map_Create created_map_Create_fun)

lemma filter_image_views [simp]:
  "filter managed (map (Pair ImageViewK) hs) = map (Pair ImageViewK) hs"
  "filter of_context (map (Pair ImageViewK) hs) = []"
  by (induction hs) simp_all

lemma filter_framebuffers [simp]:
  "filter managed (map (\<lambda>j. (FramebufferK, h j)) js) = map (\<lambda>j. (FramebufferK, h j)) js"
  "filter of_context (map (\<lambda>j. (FramebufferK, h j)) js) = []"
  by (induction js) simp_all

lemma created_Initialize_example:
  "created (trace (Initialize example_init_env (new_Engine ''VK2'', example_disk))) =
     [(WindowK, 1), (InstanceK, 2), (DebugMessengerK, 3), (SurfaceK, 4), (DeviceK, 6),
      (SwapchainK, 8), (ImageViewK, 12), (ImageViewK, 13), (CommandPoolK, 14),
      (CommandBufferK, 15), (RenderPassK, 16), (FramebufferK, 20), (FramebufferK, 21),
      (FenceK, 30), (SemaphoreK, 31), (SemaphoreK, 32), (ShaderModuleK, 40),
      (ShaderModuleK, 41)]"
  by (simp add: Initialize_example step_parts)

lemma Initialize_example_engine:
  "fst (state_of (Initialize example_init_env (new_Engine ''VK2'', example_disk))) = example_engine"
  "ended (Initialize example_init_env (new_Engine ''VK2'', example_disk)) = None"
  by (simp_all add: Initialize_example step_parts)

lemma Initialize_failed_framebuffer_parts:
  "ended (Initialize failed_framebuffer_init_env (new_Engine ''VK2'', example_disk))
     = Some (RuntimeError ''Failed to create a framebuffer'')"
  "created (trace (Initialize failed_framebuffer_init_env (new_Engine ''VK2'', example_disk))) =
     [(WindowK, 1), (InstanceK, 2), (DebugMessengerK, 3), (SurfaceK, 4), (DeviceK, 6),
      (SwapchainK, 8), (ImageViewK, 12), (ImageViewK, 13), (CommandPoolK, 14),
      (CommandBufferK, 15), (RenderPassK, 16), (FramebufferK, 20)]"
  "IsInitialized (fst (state_of (Initialize failed_framebuffer_init_env
      (new_Engine ''VK2'', example_disk)))) = False"
  by (simp_all add: Initialize_failed_framebuffer_example step_parts)

lemma destroyed_Cleanup_example:
  "destroyed (trace (Cleanup example_engine)) =
     [(CommandPoolK, 14), (SwapchainK, 8), (RenderPassK, 16), (FramebufferK, 20),
      (ImageViewK, 12), (FramebufferK, 21), (ImageViewK, 13), (DeviceK, 6), (SurfaceK, 4),
      (DebugMessengerK, 3), (InstanceK, 2), (WindowK, 1)]"
  by (simp add: Cleanup_example step_parts)

text \<open>
  C3, as amended. Teardown does something only after a complete initialisation: after
  an initialisation that stopped at any step, \<^verbatim>\<open>Cleanup\<close> destroys nothing and
  returns. After a complete initialisation (with the surface created and as many image
  views as images) it runs to its end, and every window, instance, debug messenger,
  surface, device, swapchain, image view, command pool, render pass and framebuffer that
  initialisation created is destroyed exactly as often as it was created, all others
  before the device, and the device, surface, debug messenger, instance and window last,
  in the reverse of the order of their creation. Nothing is said here about the fence,
  the semaphores and the shader modules, nor about the order among the command pool,
  the swapchain, the render pass and the framebuffers.
\<close>

theorem Cleanup_after_Initialize:
  fixes env name fs
  defines "r \<equiv> Initialize env (new_Engine name, fs)"
  defines "c \<equiv> Cleanup (fst (state_of r))"
  shows "(ended r \<noteq> None \<longrightarrow> c = ([], fst (state_of r), None))
       \<and> (ended r = None \<and> fst (sdl_create_surface env)
            \<and> length (vkb_image_views env) = length (vkb_images env) \<longrightarrow>
            ended c = None
          \<and> mset (filter managed (destroyed (trace c))) = mset (filter managed (created (trace r)))
          \<and> (\<exists>pre. destroyed (trace c) = pre @ rev (filter of_context (created (trace r)))
                   \<and> filter of_context pre = []))"
proof (intro conjI impI)
  assume "ended r \<noteq> None"
  then have "\<not> IsInitialized (fst (state_of r))"
    using Initialize_flag [of env "(new_Engine name, fs)"]
    by (simp add: r_def new_Engine_def)
  then show "c = ([], fst (state_of r), None)"
    by (simp add: c_def Cleanup_uninitialized)
next
  assume a: "ended r = None \<and> fst (sdl_create_surface env)
            \<and> length (vkb_image_views env) = length (vkb_images env)"
  let ?n = "length (vkb_images env)"
  let ?V = "vkb_image_views env"
  let ?e = "init_engine env (new_Engine name)"
  let ?F = "Framebuffers ?e"
  from a Initialize_ok [of env "new_Engine name" fs]
  obtain evp where e: "fst (state_of r) = ?e"
    and tr: "trace r = init_prefix env @ evp"
    and evp: "filter managed (created evp) = []"
    by (auto simp: r_def)
  have lenF: "length ?F = ?n"
    by (simp add: init_engine_def length_stored resize_def)
  have nthF: "?F ! j = snd (create_framebuffer env j)" if "j < ?n" for j
    using that by (simp add: init_engine_def nth_stored length_stored resize_def)
  have fields: "IsInitialized ?e" "SwapchainImageViews ?e = ?V"
    "CommandPool ?e = snd (create_command_pool env)" "Swapchain ?e = vkb_swapchain env"
    "RenderPass ?e = snd (create_render_pass env)" "Device ?e = vkb_device env"
    "Surface ?e = snd (sdl_create_surface env)" "DebugMessenger ?e = snd (vkb_instance env)"
    "Instance ?e = fst (vkb_instance env)" "Window ?e = sdl_create_window env"
    using a by (simp_all add: init_engine_def surface_after_def)
  have cl: "c =
     ([Destroy CommandPoolK (snd (create_command_pool env)), Destroy SwapchainK (vkb_swapchain env),
       Destroy RenderPassK (snd (create_render_pass env))]
      @ concat (map (\<lambda>j. [Destroy FramebufferK (?F ! j), Destroy ImageViewK (?V ! j)]) [0..<length ?V])
      @ [Destroy DeviceK (vkb_device env), Destroy SurfaceK (snd (sdl_create_surface env)),
         Destroy DebugMessengerK (snd (vkb_instance env)), Destroy InstanceK (fst (vkb_instance env)),
         Destroy WindowK (sdl_create_window env)], ?e, None)"
    using Cleanup_ok [of ?e] a lenF fields by (simp add: c_def e)
  have d: "destroyed (trace c) =
     [(CommandPoolK, snd (create_command_pool env)), (SwapchainK, vkb_swapchain env),
      (RenderPassK, snd (create_render_pass env))]
      @ concat (map (\<lambda>j. [(FramebufferK, ?F ! j), (ImageViewK, ?V ! j)]) [0..<length ?V])
      @ [(DeviceK, vkb_device env), (SurfaceK, snd (sdl_create_surface env)),
         (DebugMessengerK, snd (vkb_instance env)), (InstanceK, fst (vkb_instance env)),
         (WindowK, sdl_create_window env)]"
    by (simp add: cl step_parts destroyed_append destroyed_pairs)
  have fbs: "map (\<lambda>j. (FramebufferK, ?F ! j)) [0..<length ?V]
               = map (\<lambda>j. (FramebufferK, snd (create_framebuffer env j))) [0..<?n]"
    using a nthF by simp
  have ivs: "map (\<lambda>j. (ImageViewK, ?V ! j)) [0..<length ?V] = map (Pair ImageViewK) ?V"
    by (intro nth_equalityI) simp_all
  have pairs_managed: "filter managed (concat (map (\<lambda>j. [(FramebufferK, ?F ! j), (ImageViewK, ?V ! j)]) js))
      = concat (map (\<lambda>j. [(FramebufferK, ?F ! j), (ImageViewK, ?V ! j)]) js)" for js
    by (induction js) auto
  have pairs_context: "filter of_context (concat (map (\<lambda>j. [(FramebufferK, ?F ! j), (ImageViewK, ?V ! j)]) js))
      = []" for js
    by (induction js) auto
  have sc: "created (surface_created env) = [(SurfaceK, snd (sdl_create_surface env))]"
    using a by (simp add: surface_created_def)
  show "ended c = None" by (simp add: cl step_parts)
  show "mset (filter managed (destroyed (trace c))) = mset (filter managed (created (trace r)))"
    by (simp add: d tr created_append created_init_prefix sc evp pairs_managed mset_pairs fbs ivs)
  have rv: "rev (filter of_context (created (trace r)))
      = [(DeviceK, vkb_device env), (SurfaceK, snd (sdl_create_surface env)),
         (DebugMessengerK, snd (vkb_instance env)), (InstanceK, fst (vkb_instance env)),
         (WindowK, sdl_create_window env)]"
    by (simp add: tr created_append created_init_prefix sc filter_of_context_managed [OF evp])
  show "\<exists>pre. destroyed (trace c) = pre @ rev (filter of_context (created (trace r)))
          \<and> filter of_context pre = []"
    by (rule exI [where x = "[(CommandPoolK, snd (create_command_pool env)),
          (SwapchainK, vkb_swapchain env), (RenderPassK, snd (create_render_pass env))]
          @ concat (map (\<lambda>j. [(FramebufferK, ?F ! j), (ImageViewK, ?V ! j)]) [0..<length ?V])"])
      (simp add: d rv pairs_context)
qed

theorem Cleanup_after_Initialize_witness:
  "Cleanup (fst (state_of (Initialize failed_framebuffer_init_env (new_Engine ''VK2'', example_disk))))
     = ([], fst (state_of (Initialize failed_framebuffer_init_env (new_Engine ''VK2'', example_disk))),
        None)
   \<and> ended (Cleanup (fst (state_of (Initialize example_init_env (new_Engine ''VK2'', example_disk)))))
       = None
   \<and> mset (filter managed (destroyed (trace (Cleanup
         (fst (state_of (Initialize example_init_env (new_Engine ''VK2'', example_disk))))))))
       = mset (filter managed (created (trace
           (Initialize example_init_env (new_Engine ''VK2'', example_disk)))))
   \<and> (\<exists>pre. destroyed (trace (Cleanup
         (fst (state_of (Initialize example_init_env (new_Engine ''VK2'', example_disk))))))
         = pre @ [(DeviceK, 6), (SurfaceK, 4), (DebugMessengerK, 3), (InstanceK, 2), (WindowK, 1)]
       \<and> filter of_context pre = [])"
proof -
  have a: "fst (sdl_create_surface example_init_env)"
    "length (vkb_image_views example_init_env) = length (vkb_images example_init_env)"
    by (simp_all add: example_init_env_def)
  show ?thesis
    using Cleanup_after_Initialize [of failed_framebuffer_init_env "''VK2''" example_disk]
      Cleanup_after_Initialize [of example_init_env "''VK2''" example_disk] a
    by (simp add: Initialize_failed_framebuffer_parts(1) Initialize_example_engine(2)
        created_Initialize_example)
qed

text \<open>
  The claim as first stated fails: after the complete initialisation of the concrete run
  the destroy calls are not the creations reversed, and after the initialisation that
  stops at the second framebuffer twelve resources exist and none is destroyed.
\<close>

theorem Cleanup_mirror_counterexample:
  "created (trace (Initialize example_init_env (new_Engine ''VK2'', example_disk))) =
     [(WindowK, 1), (InstanceK, 2), (DebugMessengerK, 3), (SurfaceK, 4), (DeviceK, 6),
      (SwapchainK, 8), (ImageViewK, 12), (ImageViewK, 13), (CommandPoolK, 14),
      (CommandBufferK, 15), (RenderPassK, 16), (FramebufferK, 20), (FramebufferK, 21),
      (FenceK, 30), (SemaphoreK, 31), (SemaphoreK, 32), (ShaderModuleK, 40),
      (ShaderModuleK, 41)]
   \<and> destroyed (trace (Cleanup
        (fst (state_of (Initialize example_init_env (new_Engine ''VK2'', example_disk)))))) =
     [(CommandPoolK, 14), (SwapchainK, 8), (RenderPassK, 16), (FramebufferK, 20),
      (ImageViewK, 12), (FramebufferK, 21), (ImageViewK, 13), (DeviceK, 6), (SurfaceK, 4),
      (DebugMessengerK, 3), (InstanceK, 2), (WindowK, 1)]
   \<and> destroyed (trace (Cleanup
        (fst (state_of (Initialize example_init_env (new_Engine ''VK2'', example_disk))))))
       \<noteq> rev (created (trace (Initialize example_init_env (new_Engine ''VK2'', example_disk))))
   \<and> created (trace (Initialize failed_framebuffer_init_env (new_Engine ''VK2'', example_disk))) =
     [(WindowK, 1), (InstanceK, 2), (DebugMessengerK, 3), (SurfaceK, 4), (DeviceK, 6),
      (SwapchainK, 8), (ImageViewK, 12), (ImageViewK, 13), (CommandPoolK, 14),
      (CommandBufferK, 15), (RenderPassK, 16), (FramebufferK, 20)]
   \<and> destroyed (trace (Cleanup (fst (state_of
        (Initialize failed_framebuffer_init_env (new_Engine ''VK2'', example_disk)))))) = []"
  by (simp add: created_Initialize_example Initialize_example_engine destroyed_Cleanup_example
      Initialize_failed_framebuffer_parts Cleanup_uninitialized step_parts)

section \<open>The program: properties\<close>

lemma poll_events_eq: "poll_events es b = (b \<and> SDL_QUIT \<notin> set es)"
  by (induction es b rule: poll_events.induct) auto

lemma Run_loop_stopped: "Run_loop fs False e = Some ([], e, None)"
  by (cases fs) auto

lemma iteration_parts:
  "ended (iteration f e) = ended (Draw (draw f) e)"
  "state_of (iteration f e) = state_of (Draw (draw f) e)"
  "trace (iteration f e) = map Polled (pending f) @ trace (Draw (draw f) e)"
  by (auto simp: iteration_def ended_def state_of_def trace_def split: prod.splits)

lemma Run_loop_quit:
  assumes "\<forall>g \<in> set pre. SDL_QUIT \<notin> set (pending g)" "SDL_QUIT \<in> set (pending f)"
    and "ended (iterations (pre @ [f]) e) = None"
  shows "Run_loop (pre @ f # rest) True e = Some (iterations (pre @ [f]) e)"
  using assms
proof (induction pre arbitrary: e)
  case Nil
  then have d: "ended (Draw (draw f) e) = None"
    by (simp add: seq_ended_None iteration_parts)
  obtain ev e' where dr: "Draw (draw f) e = (ev, e', None)"
    using d by (cases "Draw (draw f) e") (auto simp: ended_def)
  show ?case
    using Nil.prems(2) dr
    by (simp add: poll_events_eq Run_loop_stopped seq_def iteration_def)
next
  case (Cons g pre)
  from Cons.prems(3) have d: "ended (Draw (draw g) e) = None"
    and rest: "ended (iterations (pre @ [f]) (state_of (Draw (draw g) e))) = None"
    by (simp_all add: seq_ended_None iteration_parts)
  obtain ev e' where dr: "Draw (draw g) e = (ev, e', None)"
    using d by (cases "Draw (draw g) e") (auto simp: ended_def)
  from rest dr have rest': "ended (iterations (pre @ [f]) e') = None"
    by (simp add: state_of_def)
  have ih: "Run_loop (pre @ f # rest) True e' = Some (iterations (pre @ [f]) e')"
    using Cons.IH [OF _ Cons.prems(2) rest'] Cons.prems(1) by simp
  obtain ev2 e2 where it: "iterations (pre @ [f]) e' = (ev2, e2, None)"
    using rest' by (cases "iterations (pre @ [f]) e'") (auto simp: ended_def)
  show ?case
    using Cons.prems(1) dr ih it
    by (simp add: poll_events_eq seq_def iteration_def)
qed

lemma iterations_append:
  "ended (iterations (pre @ [f]) e) = None \<Longrightarrow>
   ended (iterations pre e) = None
   \<and> ended (Draw (draw f) (state_of (iterations pre e))) = None
   \<and> trace (iterations (pre @ [f]) e)
       = trace (iterations pre e) @ map Polled (pending f)
           @ trace (Draw (draw f) (state_of (iterations pre e)))
   \<and> state_of (iterations (pre @ [f]) e) = state_of (Draw (draw f) (state_of (iterations pre e)))"
proof (induction pre arbitrary: e)
  case Nil
  then show ?case
    by (simp add: seq_ended_None seq_trace seq_state_of iteration_parts step_parts)
next
  case (Cons g pre)
  from Cons.prems have d: "ended (iteration g e) = None"
    and rest: "ended (iterations (pre @ [f]) (state_of (iteration g e))) = None"
    by (simp_all add: seq_ended_None)
  show ?case
    using Cons.IH [OF rest] d
    by (simp add: seq_ended_None seq_trace seq_state_of)
qed

lemma iterations_state:
  "ended (iterations fs e) = None \<Longrightarrow>
   state_of (iterations fs e) = e\<lparr> FrameNumber := FrameNumber e + of_nat (length fs) \<rparr>"
proof (induction fs arbitrary: e)
  case Nil
  then show ?case by (simp add: step_parts)
next
  case (Cons g fs)
  from Cons.prems have d: "ended (iteration g e) = None"
    and rest: "ended (iterations fs (state_of (iteration g e))) = None"
    by (simp_all add: seq_ended_None)
  from d have dd: "ended (Draw (draw g) e) = None" by (simp add: iteration_parts)
  show ?case
    using Cons.IH [OF rest] d
    by (simp add: seq_state_of iteration_parts Draw_returns [OF dd] add.assoc)
qed

lemma example_exec_env_parts:
  "init example_exec_env = example_init_env"
  "disk example_exec_env = example_disk"
  "frames example_exec_env =
     [\<lparr> pending = [SDL_OTHER 2], draw = failed_present_draw_env \<rparr>]
     @ \<lparr> pending = [SDL_OTHER 3, SDL_QUIT], draw = example_draw_env \<rparr>
     # [\<lparr> pending = [], draw = example_draw_env \<rparr>]"
  by (simp_all add: example_exec_env_def)

lemma iterations_example:
  "ended (iterations ([\<lparr> pending = [SDL_OTHER 2], draw = failed_present_draw_env \<rparr>]
                      @ [\<lparr> pending = [SDL_OTHER 3, SDL_QUIT], draw = example_draw_env \<rparr>])
            example_engine) = None"
  by (simp add: seq_ended_None iteration_parts Draw_failed_present_example Draw_example_parts
      Draw_example_second step_parts)

text \<open>
  C6, as amended. When the poll of an iteration drains a quit event, the flag is
  cleared, the Draw of that same iteration still runs, and then the loop ends: the
  iterations after it never happen. Teardown then runs to its end and the program
  returns exit code 0. Here \<open>pre\<close> are the iterations without a quit event, \<open>f\<close> is the
  first one with a quit event, every Draw up to and including that of \<open>f\<close> returns, and
  the swapchain has as many image views as images.
\<close>

theorem Exec_quit:
  fixes env name pre f rest
  defines "i \<equiv> Initialize (init env) (new_Engine name, disk env)"
  defines "e0 \<equiv> fst (state_of i)"
  defines "loop \<equiv> iterations (pre @ [f]) e0"
  assumes init: "ended i = None"
    and views: "length (vkb_image_views (init env)) = length (vkb_images (init env))"
    and frames: "frames env = pre @ f # rest"
    and noquit: "\<forall>g \<in> set pre. SDL_QUIT \<notin> set (pending g)"
    and quit: "SDL_QUIT \<in> set (pending f)"
    and draws: "ended loop = None"
  shows "Run (frames env) e0 = Some loop
       \<and> trace loop = trace (iterations pre e0) @ map Polled (pending f)
                        @ trace (Draw (draw f) (state_of (iterations pre e0)))
       \<and> ended (Draw (draw f) (state_of (iterations pre e0))) = None
       \<and> ended (Cleanup (state_of loop)) = None
       \<and> destroyed (trace (Cleanup (state_of loop))) \<noteq> []
       \<and> Exec env name = Some (trace i @ trace loop @ trace (Cleanup (state_of loop)), ExitCode 0)"
proof -
  have run: "Run (frames env) e0 = Some loop"
    using Run_loop_quit [OF noquit quit draws [unfolded loop_def]]
    by (simp add: Run_def frames loop_def)
  note app = iterations_append [OF draws [unfolded loop_def]]
  have st: "state_of loop = e0\<lparr> FrameNumber := FrameNumber e0 + of_nat (length (pre @ [f])) \<rparr>"
    using iterations_state [OF draws [unfolded loop_def]] by (simp add: loop_def)
  note cl = Cleanup_initialized [OF init [unfolded i_def] views,
      of "FrameNumber e0 + of_nat (length (pre @ [f]))"]
  have cl': "ended (Cleanup (state_of loop)) = None"
    "destroyed (trace (Cleanup (state_of loop))) \<noteq> []"
    using cl by (simp_all add: st e0_def i_def)
  obtain fs' where i: "i = (trace i, (e0, fs'), None)"
    using init triple_parts [of i] by (cases "state_of i") (simp add: e0_def)
  have l: "loop = (trace loop, state_of loop, None)"
    using draws triple_parts [of loop] by simp
  obtain e2 where c: "Cleanup (state_of loop) = (trace (Cleanup (state_of loop)), e2, None)"
    using cl'(1) triple_parts [of "Cleanup (state_of loop)"] by simp
  have ex: "Exec env name
          = Some (trace i @ trace loop @ trace (Cleanup (state_of loop)), ExitCode 0)"
    unfolding Exec_def i_def [symmetric]
    by (subst i, simp add: run, subst l, simp, subst c, simp)
  show ?thesis
    using run app cl' ex by (simp add: loop_def)
qed

theorem Exec_quit_witness:
  "Run (frames example_exec_env) example_engine
     = Some (iterations [\<lparr> pending = [SDL_OTHER 2], draw = failed_present_draw_env \<rparr>,
                         \<lparr> pending = [SDL_OTHER 3, SDL_QUIT], draw = example_draw_env \<rparr>]
               example_engine)
   \<and> ended (Draw example_draw_env (example_engine\<lparr> FrameNumber := 1 \<rparr>)) = None
   \<and> map_option snd (Exec example_exec_env ''VK2'') = Some (ExitCode 0)"
proof -
  have i: "ended (Initialize (init example_exec_env) (new_Engine ''VK2'', disk example_exec_env))
             = None"
    by (simp add: example_exec_env_parts Initialize_example_engine)
  have v: "length (vkb_image_views (init example_exec_env))
             = length (vkb_images (init example_exec_env))"
    by (simp add: example_exec_env_parts example_init_env_def)
  have n: "\<forall>g \<in> set [\<lparr> pending = [SDL_OTHER 2], draw = failed_present_draw_env \<rparr>].
             SDL_QUIT \<notin> set (pending g)"
    by simp
  have q: "SDL_QUIT \<in> set (pending \<lparr> pending = [SDL_OTHER 3, SDL_QUIT], draw = example_draw_env \<rparr>)"
    by simp
  have d: "ended (iterations ([\<lparr> pending = [SDL_OTHER 2], draw = failed_present_draw_env \<rparr>]
                      @ [\<lparr> pending = [SDL_OTHER 3, SDL_QUIT], draw = example_draw_env \<rparr>])
            (fst (state_of (Initialize (init example_exec_env)
                    (new_Engine ''VK2'', disk example_exec_env))))) = None"
    by (simp only: example_exec_env_parts Initialize_example_engine iterations_example)
  have s: "state_of (iterations [\<lparr> pending = [SDL_OTHER 2], draw = failed_present_draw_env \<rparr>]
             example_engine) = example_engine\<lparr> FrameNumber := 1 \<rparr>"
    by (simp add: seq_state_of iteration_parts Draw_failed_present_example Draw_example_parts
        step_parts)
  show ?thesis
    using Exec_quit [OF i v example_exec_env_parts(3) n q d]
    by (simp add: example_exec_env_parts(1,2) Initialize_example_engine s
        del: iterations.simps)
qed

text \<open>
  The claim as first stated fails: with the quit event drained in the first iteration,
  a Draw begins after it.
\<close>

theorem Run_quit_counterexample:
  "Run [\<lparr> pending = [SDL_QUIT], draw = example_draw_env \<rparr>] example_engine
     = Some ([Polled SDL_QUIT, WaitForFences 30 1000000000, ResetFences 30,
              AcquireNextImage 8 1000000000 31, ResetCommandBuffer 15, BeginCommandBuffer 15,
              CmdBeginRenderPass 15 16 21
                (FLit 0, FLit 0, FAbs (FSin (FDiv (FOfU64 0) (FLit 120))), FLit 1),
              CmdEndRenderPass 15,
              EndCommandBuffer 15, QueueSubmit 7 15 31 32 30, QueuePresent 7 8 32 1],
             example_engine\<lparr> FrameNumber := 1 \<rparr>, None)"
  by (simp add: Run_def Draw_example)

text \<open>
  C9, as amended. Whenever initialisation throws an exception, the program writes the
  exception's message to \<^verbatim>\<open>std::cout\<close> and returns exit code 1, and no destroy call is
  made at all. Failures the code does not look at are not fatal: see the run below.
\<close>

theorem Exec_initialization_failure:
  assumes "ended (Initialize (init env) (new_Engine name, disk env)) = Some err"
    and "is_exception err"
  shows "Exec env name
           = Some (trace (Initialize (init env) (new_Engine name, disk env)) @ [PrintWhat err],
                   ExitCode 1)
       \<and> destroyed (trace (Initialize (init env) (new_Engine name, disk env)) @ [PrintWhat err])
           = []"
proof -
  obtain ev s where i: "Initialize (init env) (new_Engine name, disk env) = (ev, s, Some err)"
    using assms(1)
    by (cases "Initialize (init env) (new_Engine name, disk env)") (auto simp: ended_def)
  have "destroyed ev = []"
    using Initialize_no_destroy [of "init env" "(new_Engine name, disk env)"] i
    by (simp add: trace_def)
  then show ?thesis
    using assms(2) i by (simp add: Exec_def trace_def destroyed_append)
qed

theorem Exec_initialization_failure_witness:
  "Exec failed_framebuffer_exec_env ''VK2''
     = Some ([SdlInit, Create WindowK 1, Create InstanceK 2, Create DebugMessengerK 3,
         Create SurfaceK 4, Create DeviceK 6, Create SwapchainK 8,
         Create ImageViewK 12, Create ImageViewK 13, Create CommandPoolK 14,
         Create CommandBufferK 15, Create RenderPassK 16, Create FramebufferK 20,
         PrintWhat (RuntimeError ''Failed to create a framebuffer'')], ExitCode 1)"
proof -
  have a: "ended (Initialize (init failed_framebuffer_exec_env)
                    (new_Engine ''VK2'', disk failed_framebuffer_exec_env))
             = Some (RuntimeError ''Failed to create a framebuffer'')"
    by (simp add: failed_framebuffer_exec_env_def Initialize_failed_framebuffer_example step_parts)
  have b: "is_exception (RuntimeError ''Failed to create a framebuffer'')"
    by simp
  have c: "trace (Initialize (init failed_framebuffer_exec_env)
                    (new_Engine ''VK2'', disk failed_framebuffer_exec_env))
     = [SdlInit, Create WindowK 1, Create InstanceK 2, Create DebugMessengerK 3,
         Create SurfaceK 4, Create DeviceK 6, Create SwapchainK 8,
         Create ImageViewK 12, Create ImageViewK 13, Create CommandPoolK 14,
         Create CommandBufferK 15, Create RenderPassK 16, Create FramebufferK 20]"
    by (simp add: failed_framebuffer_exec_env_def Initialize_failed_framebuffer_example step_parts)
  show ?thesis
    using Exec_initialization_failure [OF a b] by (simp add: c)
qed

text \<open>
  The claim as first stated fails for a fence timeout, which the specification counts
  among the fatal errors: the program prints nothing and returns exit code 0.
\<close>

theorem Exec_fence_timeout_counterexample:
  "wait_result (draw (hd (frames timeout_exec_env))) = VK_TIMEOUT
   \<and> map_option snd (Exec timeout_exec_env ''VK2'') = Some (ExitCode 0)
   \<and> map_option (printed \<circ> fst) (Exec timeout_exec_env ''VK2'') = Some []"
proof -
  have "wait_result (draw (hd (frames timeout_exec_env))) = VK_TIMEOUT"
    by (simp add: timeout_exec_env_def timeout_draw_env_def)
  moreover have "Exec timeout_exec_env ''VK2'' =
    Some ([SdlInit, Create WindowK 1, Create InstanceK 2, Create DebugMessengerK 3,
         Create SurfaceK 4, Create DeviceK 6, Create SwapchainK 8,
         Create ImageViewK 12, Create ImageViewK 13, Create CommandPoolK 14,
         Create CommandBufferK 15, Create RenderPassK 16, Create FramebufferK 20,
         Create FramebufferK 21, Create FenceK 30, Create SemaphoreK 31,
         Create SemaphoreK 32, CreateShaderModule [3, 2, 35, 7],
         Create ShaderModuleK 40, CompileShader ''./Shaders/triangle.frag'' [0x66],
         WriteFile ''./Shaders/triangle.frag.spv'' [3, 2, 35, 7],
         CreateShaderModule [3, 2, 35, 7], Create ShaderModuleK 41,
         Polled SDL_QUIT, WaitForFences 30 1000000000, ResetFences 30,
         AcquireNextImage 8 1000000000 31, ResetCommandBuffer 15, BeginCommandBuffer 15,
         CmdBeginRenderPass 15 16 21
           (FLit 0, FLit 0, FAbs (FSin (FDiv (FOfU64 0) (FLit 120))), FLit 1),
         CmdEndRenderPass 15,
         EndCommandBuffer 15, QueueSubmit 7 15 31 32 30, QueuePresent 7 8 32 1,
         Destroy CommandPoolK 14, Destroy SwapchainK 8, Destroy RenderPassK 16,
         Destroy FramebufferK 20, Destroy ImageViewK 12, Destroy FramebufferK 21,
         Destroy ImageViewK 13, Destroy DeviceK 6, Destroy SurfaceK 4,
         Destroy DebugMessengerK 3, Destroy InstanceK 2, Destroy WindowK 1], ExitCode 0)"
    by (simp add: Exec_def timeout_exec_env_def Initialize_example Run_timeout_example
        Cleanup_example_after)
  ultimately show ?thesis by simp
qed

end
